theory Spec2Isabelle
  imports Complex_Main "HOL-Library.Log_Nat"
begin

section \<open>Strings and paths\<close>

text \<open>
  A Python \<open>str\<close> is modelled by the HOL string of its UTF-8 bytes: an ASCII character
  is one byte with its top bit clear, and no byte of another character is an ASCII byte,
  so searching for \<open>.\<close>, \<open>/\<close> or a space and slicing at what was found mean the same on
  the bytes as on the characters.

  On a string of ASCII characters \<open>str.lower\<close> and \<open>str.upper\<close> map the 26 letters and
  leave every other character as it is. On any other string they are the Unicode case
  mappings (which may change the length, and may produce ASCII letters from characters
  that are not ASCII): \<open>unicode_lower\<close> and \<open>unicode_upper\<close> stand for them, and nothing
  is known of them here but that they are functions.
\<close>

definition is_ascii :: "string \<Rightarrow> bool" where
  "is_ascii s = list_all (\<lambda>c. \<not> digit7 c) s"

definition unicode_lower :: "string \<Rightarrow> string" where
  "unicode_lower = undefined"

definition unicode_upper :: "string \<Rightarrow> string" where
  "unicode_upper = undefined"

definition upper_letters :: string where
  "upper_letters = ''ABCDEFGHIJKLMNOPQRSTUVWXYZ''"

definition lower_letters :: string where
  "lower_letters = ''abcdefghijklmnopqrstuvwxyz''"

definition lower_char :: "char \<Rightarrow> char" where
  "lower_char c = (case map_of (zip upper_letters lower_letters) c of None \<Rightarrow> c | Some d \<Rightarrow> d)"

definition upper_char :: "char \<Rightarrow> char" where
  "upper_char c = (case map_of (zip lower_letters upper_letters) c of None \<Rightarrow> c | Some d \<Rightarrow> d)"

definition lower :: "string \<Rightarrow> string" where
  "lower s = (if is_ascii s then map lower_char s else unicode_lower s)"

definition upper :: "string \<Rightarrow> string" where
  "upper s = (if is_ascii s then map upper_char s else unicode_upper s)"

text \<open>
  A \<open>pathlib.Path\<close> is its list of components. \<open>name\<close> is the final component and
  \<open>suffix\<close> follows \<open>PurePath.suffix\<close>: with \<open>i = name.rfind('.')\<close>, the suffix is
  \<open>name[i:]\<close> when \<open>0 < i < len(name) - 1\<close> and the empty string otherwise.
\<close>

type_synonym path = "string list"

definition name :: "path \<Rightarrow> string" where
  "name p = (if p = [] then [] else last p)"

fun rfind :: "char \<Rightarrow> string \<Rightarrow> nat option" where
  "rfind c [] = None"
| "rfind c (x # xs) =
     (case rfind c xs of
        Some i \<Rightarrow> Some (Suc i)
      | None \<Rightarrow> if x = c then Some 0 else None)"

definition suffix :: "path \<Rightarrow> string" where
  "suffix p =
     (let n = name p in
      case rfind (CHR ''.'') n of
        None \<Rightarrow> []
      | Some i \<Rightarrow> if 0 < i \<and> i + 1 < length n then drop i n else [])"

section \<open>The registry of conversions\<close>

text \<open>
  Every value of \<open>FileConverter.CONVERSIONS\<close> is a lambda \<open>lambda p, **kw: ...\<close> that calls
  one static method with a fixed target format. The lambda is modelled by the call it
  makes; \<open>ImageConvert fmt\<close> and \<open>AudioConvert fmt\<close> carry the literal format argument.
\<close>

datatype call =
    ImageConvert string
  | Csv_to_json | Json_to_csv | Csv_to_xml | Xml_to_csv | Json_to_xml | Xml_to_json
  | Csv_to_excel | Excel_to_csv
  | Markdown_to_html | Html_to_markdown | Txt_to_html | Txt_to_pdf | Markdown_to_pdf
  | AudioConvert string

definition CONVERSIONS :: "((string \<times> string) \<times> call) list" where
  "CONVERSIONS =
   [((''jpg'', ''png''), ImageConvert ''png''),
    ((''jpeg'', ''png''), ImageConvert ''png''),
    ((''png'', ''jpg''), ImageConvert ''jpeg''),
    ((''png'', ''jpeg''), ImageConvert ''jpeg''),
    ((''png'', ''webp''), ImageConvert ''webp''),
    ((''jpg'', ''webp''), ImageConvert ''webp''),
    ((''jpeg'', ''webp''), ImageConvert ''webp''),
    ((''webp'', ''png''), ImageConvert ''png''),
    ((''webp'', ''jpg''), ImageConvert ''jpeg''),
    ((''gif'', ''png''), ImageConvert ''png''),
    ((''bmp'', ''png''), ImageConvert ''png''),
    ((''bmp'', ''jpg''), ImageConvert ''jpeg''),
    ((''tiff'', ''png''), ImageConvert ''png''),
    ((''tiff'', ''jpg''), ImageConvert ''jpeg''),
    ((''png'', ''ico''), ImageConvert ''ico''),
    ((''jpg'', ''ico''), ImageConvert ''ico''),
    ((''csv'', ''json''), Csv_to_json),
    ((''json'', ''csv''), Json_to_csv),
    ((''csv'', ''xml''), Csv_to_xml),
    ((''xml'', ''csv''), Xml_to_csv),
    ((''json'', ''xml''), Json_to_xml),
    ((''xml'', ''json''), Xml_to_json),
    ((''csv'', ''xlsx''), Csv_to_excel),
    ((''xlsx'', ''csv''), Excel_to_csv),
    ((''xls'', ''csv''), Excel_to_csv),
    ((''md'', ''html''), Markdown_to_html),
    ((''markdown'', ''html''), Markdown_to_html),
    ((''html'', ''md''), Html_to_markdown),
    ((''html'', ''markdown''), Html_to_markdown),
    ((''txt'', ''html''), Txt_to_html),
    ((''txt'', ''pdf''), Txt_to_pdf),
    ((''md'', ''pdf''), Markdown_to_pdf),
    ((''markdown'', ''pdf''), Markdown_to_pdf),
    ((''mp3'', ''wav''), AudioConvert ''wav''),
    ((''wav'', ''mp3''), AudioConvert ''mp3''),
    ((''ogg'', ''mp3''), AudioConvert ''mp3''),
    ((''flac'', ''mp3''), AudioConvert ''mp3''),
    ((''mp3'', ''ogg''), AudioConvert ''ogg''),
    ((''wav'', ''ogg''), AudioConvert ''ogg''),
    ((''flac'', ''wav''), AudioConvert ''wav'')]"

text \<open>\<open>key in cls.CONVERSIONS\<close>: membership among the keys of the dictionary.\<close>

definition registered :: "string \<times> string \<Rightarrow> bool" where
  "registered key = (map_of CONVERSIONS key \<noteq> None)"

definition get_supported_conversions :: "(string \<times> string) list" where
  "get_supported_conversions = map fst CONVERSIONS"

definition can_convert :: "string \<Rightarrow> string \<Rightarrow> bool" where
  "can_convert from_format to_format = registered (lower from_format, lower to_format)"


section \<open>Errors, effects and the libraries\<close>

text \<open>
  The module has one exception class, \<open>ConversionError\<close>, raised with a message. The
  messages are Russian f-strings; each literal is modelled by a constructor that keeps
  the interpolated parts:
  \<^item> \<open>Not_supported a b\<close>: the message of \<open>FileConverter.convert\<close>, "conversion a -> b is
    not supported";
  \<^item> \<open>Unsupported_format f\<close>: "unsupported format: f";
  \<^item> \<open>Not_installed d\<close>: "d is not installed. Install: pip install ...";
  \<^item> \<open>Failed what m\<close>: "conversion error what: m", where m is \<open>str(e)\<close> of the exception
    caught by \<open>except Exception as e\<close>;
  \<^item> \<open>Library s\<close>: the text \<open>s\<close> of an exception raised by a library or by Python.
  \<open>TypeError\<close> is Python's own exception for a call with an unexpected keyword argument;
  it is not a \<open>ConversionError\<close>.
\<close>

datatype message =
    Not_supported string string
  | Unsupported_format string
  | Not_installed string
  | Failed string message
  | Library string

datatype error = ConversionError message | TypeError

text \<open>The dictionary of keyword arguments handed to \<open>img.save\<close>.\<close>

record save_kwargs =
  sk_quality :: "int option"
  sk_optimize :: "bool option"

text \<open>
  A run of a converter is the list of its effects, in order, and its outcome. \<open>Invoke c\<close>:
  the registered converter \<open>c\<close> is called; \<open>Open p\<close>: a library opens the file \<open>p\<close>
  (decoding begins); \<open>Save f k\<close>: the image encoder is called for format \<open>f\<close> with the
  keyword arguments \<open>k\<close>; \<open>Export f b\<close>: the audio encoder is called with bitrate \<open>b\<close>;
  \<open>Write p\<close> and \<open>Unlink p\<close>: the endpoint writes and removes the file \<open>p\<close>.
\<close>

datatype event =
    Invoke call
  | Open path
  | Save string "int option" "bool option"
  | Export string "string option"
  | Write path
  | Unlink path

type_synonym 'a run = "event list \<times> (error + 'a)"

text \<open>
  A decoded image: its mode, its size (width, height), its pixels in row order, each a
  list of band values, and the palette of a \<open>P\<close> image as RGBA entries.
\<close>

record image =
  img_mode :: string
  img_size :: "int \<times> int"
  img_pixels :: "nat list list"
  img_palette :: "nat list list"

record audio =
  audio_len :: int
  audio_channels :: int
  audio_frame_rate :: int

datatype json =
    JNull
  | JBool bool
  | JInt int
  | JFloat rat
  | JStr string
  | JArr "json list"
  | JObj "(string \<times> json) list"

datatype element = Element (el_tag: string) (el_text: "string option") (el_children: "element list")

text \<open>
  The outcome of \<open>from weasyprint import HTML\<close>: the name is imported, the import raises
  \<open>ImportError\<close> (the package is not installed), or it raises another exception, as the
  package does when its native libraries cannot be loaded.
\<close>

datatype import_result = Imported | ImportError | Import_raises string

text \<open>
  The exceptions of \<open>HTML(string=html_str).write_pdf()\<close>: the package imports modules
  while it runs, so the call may raise \<open>ImportError\<close> itself, or it raises another
  exception.
\<close>

datatype pdf_failure = Pdf_ImportError | Pdf_raises string

text \<open>A pandas \<open>DataFrame\<close>: the module only passes it from one pandas call to the next.\<close>

typedecl dataframe

text \<open>
  The world outside the module: whether \<open>pydub\<close> was imported when the module was
  loaded, what the import of \<open>weasyprint\<close> does, and the library calls, each returning
  \<open>Inl s\<close> when it raises an exception whose text is \<open>s\<close> (\<open>write_pdf\<close> tells an
  \<open>ImportError\<close> from the others, as its caller does). \<open>fs_write p\<close> is \<open>Some s\<close> when
  writing the file \<open>p\<close> raises. \<open>df_to_json\<close> is
  \<open>df.to_json(orient='records', indent=2, force_ascii=False)\<close> and \<open>df_to_csv\<close> is
  \<open>df.to_csv(buffer, index=False)\<close>. The bodies of the converters no claim is about
  (\<open>csv_to_xml\<close>, \<open>xml_to_csv\<close>, \<open>csv_to_excel\<close>, \<open>excel_to_csv\<close>, \<open>markdown_to_html\<close>,
  \<open>html_to_markdown\<close>, \<open>txt_to_html\<close>) are one library outcome each, \<open>library_body\<close>.
\<close>

record world =
  AUDIO_SUPPORT :: bool
  weasyprint_import :: import_result
  pil_open :: "path \<Rightarrow> string + image"
  pil_resize :: "image \<Rightarrow> int \<times> int \<Rightarrow> string + image"
  pil_save :: "image \<Rightarrow> string \<Rightarrow> save_kwargs \<Rightarrow> string + string"
  read_csv :: "path \<Rightarrow> string + dataframe"
  df_to_json :: "dataframe \<Rightarrow> string + string"
  DataFrame :: "json \<Rightarrow> string + dataframe"
  df_to_csv :: "dataframe \<Rightarrow> string + string"
  json_load :: "path \<Rightarrow> string + json"
  json_dumps :: "json \<Rightarrow> string + string"
  float_repr :: "rat \<Rightarrow> string"
  xml_pretty :: "element \<Rightarrow> string + string"
  et_parse :: "path \<Rightarrow> string + element"
  write_pdf :: "string \<Rightarrow> pdf_failure + string"
  audio_from_file :: "path \<Rightarrow> string \<Rightarrow> string + audio"
  audio_export :: "audio \<Rightarrow> string \<Rightarrow> string option \<Rightarrow> string + string"
  stat_size :: "path \<Rightarrow> string + int"
  fs_write :: "path \<Rightarrow> string option"
  library_body :: "call \<Rightarrow> path \<Rightarrow> string + string"

section \<open>Floating-point arithmetic of the resize\<close>

text \<open>
  Python's \<open>/\<close> on integers and \<open>*\<close> of an integer and a float are IEEE double
  operations: the exact result rounded to the nearest double, ties to even. A finite
  double is a rational number, so a float is modelled as a \<open>rat\<close> and rounding as \<open>fl\<close>:
  \<open>binary_exponent q\<close> is the \<open>k\<close> with \<open>2^k \<le> |q| < 2^(k+1)\<close>, and \<open>fl q\<close> keeps 53
  significant bits. The exponent is not bounded, which is exact for every magnitude
  between \<open>2^-1022\<close> and \<open>2^1024\<close>, far beyond any image dimension.
  \<open>int(x)\<close> truncates towards zero.
\<close>

definition round_half_even :: "rat \<Rightarrow> int" where
  "round_half_even z =
     (let f = \<lfloor>z\<rfloor>; d = z - of_int f in
      if d < 1 / 2 then f else if 1 / 2 < d then f + 1 else if even f then f else f + 1)"

definition binary_exponent :: "rat \<Rightarrow> int" where
  "binary_exponent q =
     (let (a, b) = quotient_of \<bar>q\<bar>; d = bitlen a - bitlen b in
      if 2 powi d \<le> \<bar>q\<bar> then d else d - 1)"

definition fl :: "rat \<Rightarrow> rat" where
  "fl q =
     (if q = 0 then 0
      else let e = binary_exponent q - 52 in
           of_int (round_half_even (q / 2 powi e)) * 2 powi e)"

definition py_int :: "rat \<Rightarrow> int" where
  "py_int q = (if 0 \<le> q then \<lfloor>q\<rfloor> else \<lceil>q\<rceil>)"

text \<open>\<open>a / b\<close> on integers: \<open>ZeroDivisionError\<close> when \<open>b = 0\<close>.\<close>

definition truediv :: "int \<Rightarrow> int \<Rightarrow> string + rat" where
  "truediv a b = (if b = 0 then Inl ''division by zero'' else Inr (fl (of_int a / of_int b)))"

text \<open>\<open>n * x\<close> for an integer \<open>n\<close> and a float \<open>x\<close>: \<open>n\<close> is converted to a float first.\<close>

definition int_times_float :: "int \<Rightarrow> rat \<Rightarrow> rat" where
  "int_times_float n x = fl (fl (of_int n) * x)"

section \<open>ImageConverter\<close>

text \<open>Truth value of an \<open>Optional[int]\<close>: \<open>None\<close> and \<open>0\<close> are false.\<close>

definition truthy :: "int option \<Rightarrow> bool" where
  "truthy v = (case v of None \<Rightarrow> False | Some n \<Rightarrow> n \<noteq> 0)"

text \<open>
  The size \<open>ImageConverter._resize\<close> passes to \<open>img.resize\<close>: \<open>Inr None\<close> when it returns
  the image as it is, \<open>Inl\<close> when a division raises.
\<close>

definition resize_dimensions ::
  "int \<times> int \<Rightarrow> int option \<Rightarrow> int option \<Rightarrow> bool \<Rightarrow> string + (int \<times> int) option" where
  "resize_dimensions sz width height keep_aspect_ratio =
     (let original_width = fst sz; original_height = snd sz in
      if keep_aspect_ratio then
        if truthy width \<and> truthy height then
          (case truediv (the width) original_width of
             Inl e \<Rightarrow> Inl e
           | Inr rw \<Rightarrow>
               (case truediv (the height) original_height of
                  Inl e \<Rightarrow> Inl e
                | Inr rh \<Rightarrow>
                    let ratio = min rw rh in
                    Inr (Some (py_int (int_times_float original_width ratio),
                               py_int (int_times_float original_height ratio)))))
        else if truthy width then
          (case truediv (the width) original_width of
             Inl e \<Rightarrow> Inl e
           | Inr ratio \<Rightarrow>
               Inr (Some (the width, py_int (int_times_float original_height ratio))))
        else if truthy height then
          (case truediv (the height) original_height of
             Inl e \<Rightarrow> Inl e
           | Inr ratio \<Rightarrow>
               Inr (Some (py_int (int_times_float original_width ratio), the height)))
        else Inr None
      else
        Inr (Some (if truthy width then the width else original_width,
                   if truthy height then the height else original_height)))"

definition ImageConverter_resize ::
  "world \<Rightarrow> image \<Rightarrow> int option \<Rightarrow> int option \<Rightarrow> bool \<Rightarrow> string + image" where
  "ImageConverter_resize w img width height keep_aspect_ratio =
     (case resize_dimensions (img_size img) width height keep_aspect_ratio of
        Inl e \<Rightarrow> Inl e
      | Inr None \<Rightarrow> Inr img
      | Inr (Some d) \<Rightarrow> pil_resize w img d)"


text \<open>
  The Pillow operations the flattening step uses, on the pixel lists. An \<open>RGB\<close> image
  stores four bytes per pixel, as \<open>RGBA\<close> and \<open>LA\<close> images do (\<open>LA\<close> as L, L, L, A), so
  \<open>Image.paste\<close> of such an image into an \<open>RGB\<close> image converts nothing: without a mask it
  copies the first three stored bytes, with an \<open>L\<close> mask it blends each of them with the
  byte below, \<open>blend8\<close> being Pillow's rounding of \<open>(out * (255 - mask) + in * mask) / 255\<close>.
\<close>

definition Image_new :: "string \<Rightarrow> int \<times> int \<Rightarrow> nat list \<Rightarrow> image" where
  "Image_new m sz colour =
     \<lparr>img_mode = m, img_size = sz,
      img_pixels = replicate (nat (fst sz) * nat (snd sz)) colour, img_palette = []\<rparr>"

definition palette_entry :: "nat list list \<Rightarrow> nat list \<Rightarrow> nat list" where
  "palette_entry pal px =
     (case px of
        [] \<Rightarrow> [0, 0, 0, 255]
      | i # _ \<Rightarrow> if i < length pal then pal ! i else [0, 0, 0, 255])"

definition convert_RGBA :: "image \<Rightarrow> image" where
  "convert_RGBA img =
     img\<lparr>img_mode := ''RGBA'',
         img_pixels := map (palette_entry (img_palette img)) (img_pixels img),
         img_palette := []\<rparr>"

definition last_band :: "image \<Rightarrow> image" where
  "last_band img =
     img\<lparr>img_mode := ''L'',
         img_pixels := map (\<lambda>px. case rev px of [] \<Rightarrow> [] | a # _ \<Rightarrow> [a]) (img_pixels img),
         img_palette := []\<rparr>"

definition stored_rgb :: "string \<Rightarrow> nat list \<Rightarrow> nat list" where
  "stored_rgb m px =
     (if m = ''LA'' then (case px of [] \<Rightarrow> [] | l # _ \<Rightarrow> [l, l, l]) else take 3 px)"

definition div255 :: "nat \<Rightarrow> nat" where
  "div255 a = (let t = a + 128 in (t div 256 + t) div 256)"

definition blend8 :: "nat \<Rightarrow> nat \<Rightarrow> nat \<Rightarrow> nat" where
  "blend8 mk in1 in2 = div255 (in1 * (255 - mk) + in2 * mk)"

definition paste_pixel :: "nat list \<Rightarrow> nat list \<Rightarrow> nat list \<Rightarrow> nat list" where
  "paste_pixel out inp mk =
     (case mk of [] \<Rightarrow> out | m # _ \<Rightarrow> map (\<lambda>(o', i'). blend8 m o' i') (zip out inp))"

definition paste :: "image \<Rightarrow> image \<Rightarrow> image option \<Rightarrow> image" where
  "paste background im mask_image =
     (let src = map (stored_rgb (img_mode im)) (img_pixels im) in
      case mask_image of
        None \<Rightarrow> background\<lparr>img_pixels := src\<rparr>
      | Some m \<Rightarrow>
          background\<lparr>img_pixels :=
            map (\<lambda>(out, inp, mk). paste_pixel out inp mk)
              (zip (img_pixels background) (zip src (img_pixels m)))\<rparr>)"

text \<open>
  The flattening block of \<open>ImageConverter.convert\<close>: a white \<open>RGB\<close> background of the
  image's size, a \<open>P\<close> image converted to \<open>RGBA\<close>, and the image pasted with
  \<open>mask = img.split()[-1] if img.mode == 'RGBA' else None\<close>.
\<close>

definition flatten :: "image \<Rightarrow> image" where
  "flatten img0 =
     (let background = Image_new ''RGB'' (img_size img0) [255, 255, 255];
          img = (if img_mode img0 = ''P'' then convert_RGBA img0 else img0);
          mask_image = (if img_mode img = ''RGBA'' then Some (last_band img) else None)
      in paste background img mask_image)"

definition image_formats :: "string list" where
  "image_formats = [''jpeg'', ''png'', ''gif'', ''webp'', ''bmp'', ''tiff'', ''ico'']"

definition image_mime_types :: "(string \<times> string) list" where
  "image_mime_types =
     [(''jpeg'', ''image/jpeg''), (''png'', ''image/png''), (''gif'', ''image/gif''),
      (''webp'', ''image/webp''), (''bmp'', ''image/bmp''), (''tiff'', ''image/tiff''),
      (''ico'', ''image/x-icon'')]"

definition dict_get :: "('k \<times> 'v) list \<Rightarrow> 'k \<Rightarrow> 'v \<Rightarrow> 'v" where
  "dict_get d k dflt = (case map_of d k of None \<Rightarrow> dflt | Some v \<Rightarrow> v)"

text \<open>
  \<open>ImageConverter.convert\<close>. The format check is outside the \<open>try\<close>; every exception
  inside it is re-raised as \<open>ConversionError\<close> with the image message (\<open>Failed ''image''\<close>).
\<close>

definition save_image :: "world \<Rightarrow> path \<Rightarrow> string \<Rightarrow> int \<Rightarrow> image \<Rightarrow> (string \<times> string) run" where
  "save_image w input_path fmt quality img =
     (let q = (if fmt \<in> set [''jpeg'', ''webp''] then Some quality else None);
          opt = (if fmt = ''png'' then Some True else None);
          effects = [Open input_path, Save (upper fmt) q opt] in
      case pil_save w img (upper fmt) \<lparr>sk_quality = q, sk_optimize = opt\<rparr> of
        Inl e \<Rightarrow> (effects, Inl (ConversionError (Failed ''image'' (Library e))))
      | Inr bytes \<Rightarrow>
          (effects, Inr (bytes, dict_get image_mime_types fmt ''application/octet-stream'')))"

definition ImageConverter_convert ::
  "world \<Rightarrow> path \<Rightarrow> string \<Rightarrow> int option \<Rightarrow> int option \<Rightarrow> int \<Rightarrow> bool
   \<Rightarrow> (string \<times> string) run" where
  "ImageConverter_convert w input_path output_format width height quality keep_aspect_ratio =
     (let fmt0 = lower output_format;
          fmt = (if fmt0 = ''jpg'' then ''jpeg'' else fmt0) in
      if fmt \<notin> set image_formats then ([], Inl (ConversionError (Unsupported_format fmt)))
      else
        case pil_open w input_path of
          Inl e \<Rightarrow> ([Open input_path], Inl (ConversionError (Failed ''image'' (Library e))))
        | Inr img0 \<Rightarrow>
           (let img1 = (if fmt = ''jpeg'' \<and> img_mode img0 \<in> set [''RGBA'', ''LA'', ''P'']
                        then flatten img0 else img0) in
            case (if truthy width \<or> truthy height
                  then ImageConverter_resize w img1 width height keep_aspect_ratio
                  else Inr img1) of
              Inl e \<Rightarrow> ([Open input_path], Inl (ConversionError (Failed ''image'' (Library e))))
            | Inr img2 \<Rightarrow> save_image w input_path fmt quality img2))"

section \<open>DataConverter: JSON and XML\<close>

text \<open>\<open>str(d)\<close> of a scalar: decimal digits of an integer, \<open>True\<close>/\<open>False\<close> of a boolean.\<close>

fun str_nat :: "nat \<Rightarrow> string" where
  "str_nat n =
     (if n < 10 then [''0123456789'' ! n] else str_nat (n div 10) @ [''0123456789'' ! (n mod 10)])"

declare str_nat.simps [simp del]

definition str_int :: "int \<Rightarrow> string" where
  "str_int i = (if i < 0 then CHR ''-'' # str_nat (nat (- i)) else str_nat (nat i))"

definition replace_space :: "string \<Rightarrow> string" where
  "replace_space s = map (\<lambda>c. if c = CHR '' '' then CHR ''_'' else c) s"

text \<open>\<open>ET.SubElement(parent, tag)\<close> appends a new element with no text and no children.\<close>

definition append_child :: "element \<Rightarrow> element \<Rightarrow> element" where
  "append_child parent child =
     Element (el_tag parent) (el_text parent) (el_children parent @ [child])"

definition set_text :: "element \<Rightarrow> string \<Rightarrow> element" where
  "set_text parent s = Element (el_tag parent) (Some s) (el_children parent)"

text \<open>
  The inner function \<open>dict_to_xml(d, parent)\<close> of \<open>json_to_xml\<close>; it returns the parent
  it has filled. \<open>frepr\<close> is \<open>str\<close> on floats.
\<close>

fun dict_to_xml :: "(rat \<Rightarrow> string) \<Rightarrow> json \<Rightarrow> element \<Rightarrow> element"
  and items_to_xml :: "(rat \<Rightarrow> string) \<Rightarrow> (string \<times> json) list \<Rightarrow> element \<Rightarrow> element"
  and list_to_xml :: "(rat \<Rightarrow> string) \<Rightarrow> json list \<Rightarrow> element \<Rightarrow> element" where
  "dict_to_xml frepr (JObj kvs) parent = items_to_xml frepr kvs parent"
| "dict_to_xml frepr (JArr xs) parent = list_to_xml frepr xs parent"
| "dict_to_xml frepr JNull parent = set_text parent []"
| "dict_to_xml frepr (JBool b) parent = set_text parent (if b then ''True'' else ''False'')"
| "dict_to_xml frepr (JInt i) parent = set_text parent (str_int i)"
| "dict_to_xml frepr (JFloat x) parent = set_text parent (frepr x)"
| "dict_to_xml frepr (JStr s) parent = set_text parent s"
| "items_to_xml frepr [] parent = parent"
| "items_to_xml frepr ((key, v) # kvs) parent =
     items_to_xml frepr kvs
       (append_child parent (dict_to_xml frepr v (Element (replace_space key) None [])))"
| "list_to_xml frepr [] parent = parent"
| "list_to_xml frepr (item # xs) parent =
     list_to_xml frepr xs
       (append_child parent (dict_to_xml frepr item (Element ''item'' None [])))"

text \<open>The tree \<open>json_to_xml\<close> hands to \<open>ET.tostring\<close>, with \<open>root_name = 'data'\<close>.\<close>

definition json_to_xml_root :: "(rat \<Rightarrow> string) \<Rightarrow> json \<Rightarrow> element" where
  "json_to_xml_root frepr data =
     (let root_elem = Element ''data'' None [] in
      case data of
        JArr xs \<Rightarrow> list_to_xml frepr xs root_elem
      | _ \<Rightarrow> dict_to_xml frepr data root_elem)"

definition json_to_xml :: "world \<Rightarrow> path \<Rightarrow> (string \<times> string) run" where
  "json_to_xml w input_path =
     ([Open input_path],
      case json_load w input_path of
        Inl e \<Rightarrow> Inl (ConversionError (Failed ''JSON->XML'' (Library e)))
      | Inr data \<Rightarrow>
          (case xml_pretty w (json_to_xml_root (float_repr w) data) of
             Inl e \<Rightarrow> Inl (ConversionError (Failed ''JSON->XML'' (Library e)))
           | Inr xml_str \<Rightarrow> Inr (xml_str, ''application/xml'')))"

text \<open>
  The inner function \<open>xml_to_dict(elem)\<close> of \<open>xml_to_json\<close>. \<open>result\<close> is a Python
  dictionary, which keeps insertion order: \<open>dict_set\<close> replaces the value of a present
  key in place and appends a new key. A list the loop has built is a \<open>JArr\<close>; the values
  it stores are never lists themselves.
\<close>

fun dict_set :: "'k \<Rightarrow> 'v \<Rightarrow> ('k \<times> 'v) list \<Rightarrow> ('k \<times> 'v) list" where
  "dict_set k v [] = [(k, v)]"
| "dict_set k v ((k', v') # kvs) =
     (if k = k' then (k, v) # kvs else (k', v') # dict_set k v kvs)"

definition text_json :: "string option \<Rightarrow> json" where
  "text_json t = (case t of None \<Rightarrow> JNull | Some s \<Rightarrow> JStr s)"

definition add_value :: "string \<Rightarrow> json \<Rightarrow> (string \<times> json) list \<Rightarrow> (string \<times> json) list" where
  "add_value tg v result =
     (case map_of result tg of
        None \<Rightarrow> dict_set tg v result
      | Some (JArr xs) \<Rightarrow> dict_set tg (JArr (xs @ [v])) result
      | Some old \<Rightarrow> dict_set tg (JArr [old, v]) result)"

fun xml_to_dict :: "element \<Rightarrow> json"
  and children_to_dict :: "element list \<Rightarrow> (string \<times> json) list \<Rightarrow> (string \<times> json) list" where
  "xml_to_dict (Element tg txt cs) =
     (let result = children_to_dict cs [] in
      if result \<noteq> [] then JObj result else text_json txt)"
| "children_to_dict [] result = result"
| "children_to_dict (Element tg txt cs # rest) result =
     (let v = (if cs \<noteq> [] then xml_to_dict (Element tg txt cs) else text_json txt) in
      children_to_dict rest (add_value tg v result))"

definition xml_to_json_data :: "element \<Rightarrow> json" where
  "xml_to_json_data root_elem = JObj [(el_tag root_elem, xml_to_dict root_elem)]"

definition xml_to_json :: "world \<Rightarrow> path \<Rightarrow> (string \<times> string) run" where
  "xml_to_json w input_path =
     ([Open input_path],
      case et_parse w input_path of
        Inl e \<Rightarrow> Inl (ConversionError (Failed ''XML->JSON'' (Library e)))
      | Inr root_elem \<Rightarrow>
          (case json_dumps w (xml_to_json_data root_elem) of
             Inl e \<Rightarrow> Inl (ConversionError (Failed ''XML->JSON'' (Library e)))
           | Inr result \<Rightarrow> Inr (result, ''application/json'')))"









section \<open>DataConverter: CSV and JSON\<close>

text \<open>
  \<open>csv_to_json\<close> reads the file with pandas and writes the frame as JSON records.
  \<open>json_to_csv\<close> loads the JSON, wraps a single object in a list, builds a frame and
  writes it as CSV. What the frame holds is pandas' business.
\<close>

definition csv_to_json :: "world \<Rightarrow> path \<Rightarrow> (string \<times> string) run" where
  "csv_to_json w input_path =
     ([Open input_path],
      case read_csv w input_path of
        Inl e \<Rightarrow> Inl (ConversionError (Failed ''CSV->JSON'' (Library e)))
      | Inr df \<Rightarrow>
          (case df_to_json w df of
             Inl e \<Rightarrow> Inl (ConversionError (Failed ''CSV->JSON'' (Library e)))
           | Inr result \<Rightarrow> Inr (result, ''application/json'')))"

definition wrap_object :: "json \<Rightarrow> json" where
  "wrap_object data = (case data of JObj kvs \<Rightarrow> JArr [data] | _ \<Rightarrow> data)"

definition json_to_csv :: "world \<Rightarrow> path \<Rightarrow> (string \<times> string) run" where
  "json_to_csv w input_path =
     ([Open input_path],
      case json_load w input_path of
        Inl e \<Rightarrow> Inl (ConversionError (Failed ''JSON->CSV'' (Library e)))
      | Inr data \<Rightarrow>
          (case DataFrame w (wrap_object data) of
             Inl e \<Rightarrow> Inl (ConversionError (Failed ''JSON->CSV'' (Library e)))
           | Inr df \<Rightarrow>
               (case df_to_csv w df of
                  Inl e \<Rightarrow> Inl (ConversionError (Failed ''JSON->CSV'' (Library e)))
                | Inr csv \<Rightarrow> Inr (csv, ''text/csv''))))"

section \<open>The converters made of library calls only\<close>

text \<open>
  Each of these static methods is \<open>try: <library calls on input_path> except Exception as
  e: raise ConversionError(<its message> + str(e))\<close>. The arrow of the messages is
  written \<open>->\<close>.
\<close>

definition library_converter ::
  "world \<Rightarrow> call \<Rightarrow> string \<Rightarrow> string \<Rightarrow> path \<Rightarrow> (string \<times> string) run" where
  "library_converter w c what mime input_path =
     ([Open input_path],
      case library_body w c input_path of
        Inl e \<Rightarrow> Inl (ConversionError (Failed what (Library e)))
      | Inr out \<Rightarrow> Inr (out, mime))"

definition csv_to_xml :: "world \<Rightarrow> path \<Rightarrow> (string \<times> string) run" where
  "csv_to_xml w p = library_converter w Csv_to_xml ''CSV->XML'' ''application/xml'' p"

definition xml_to_csv :: "world \<Rightarrow> path \<Rightarrow> (string \<times> string) run" where
  "xml_to_csv w p = library_converter w Xml_to_csv ''XML->CSV'' ''text/csv'' p"

definition csv_to_excel :: "world \<Rightarrow> path \<Rightarrow> (string \<times> string) run" where
  "csv_to_excel w p =
     library_converter w Csv_to_excel ''CSV->Excel''
       ''application/vnd.openxmlformats-officedocument.spreadsheetml.sheet'' p"

definition excel_to_csv :: "world \<Rightarrow> path \<Rightarrow> (string \<times> string) run" where
  "excel_to_csv w p = library_converter w Excel_to_csv ''Excel->CSV'' ''text/csv'' p"

definition markdown_to_html :: "world \<Rightarrow> path \<Rightarrow> (string \<times> string) run" where
  "markdown_to_html w p = library_converter w Markdown_to_html ''MD->HTML'' ''text/html'' p"

definition html_to_markdown :: "world \<Rightarrow> path \<Rightarrow> (string \<times> string) run" where
  "html_to_markdown w p =
     library_converter w Html_to_markdown ''HTML->MD'' ''text/markdown'' p"

definition txt_to_html :: "world \<Rightarrow> path \<Rightarrow> (string \<times> string) run" where
  "txt_to_html w p = library_converter w Txt_to_html ''TXT->HTML'' ''text/html'' p"

section \<open>DocumentConverter: PDF through HTML\<close>

text \<open>\<open>str(e)\<close> of a caught exception.\<close>

definition str_error :: "error \<Rightarrow> message" where
  "str_error e = (case e of ConversionError m \<Rightarrow> m | TypeError \<Rightarrow> Library ''TypeError'')"

text \<open>
  \<open>txt_to_pdf\<close> and \<open>markdown_to_pdf\<close>: the first statement of the \<open>try\<close> is
  \<open>from weasyprint import HTML\<close>. An \<open>ImportError\<close>, of the import or of the rendering,
  has its own handler; every other exception, of the import or of what follows, the
  \<open>ConversionError\<close> of the HTML step included, is wrapped by \<open>except Exception\<close>.
\<close>

definition html_to_pdf ::
  "world \<Rightarrow> string \<Rightarrow> (string \<times> string) run \<Rightarrow> (string \<times> string) run" where
  "html_to_pdf w what html_run =
     (case weasyprint_import w of
        ImportError \<Rightarrow> ([], Inl (ConversionError (Not_installed ''WeasyPrint'')))
      | Import_raises e \<Rightarrow> ([], Inl (ConversionError (Failed what (Library e))))
      | Imported \<Rightarrow>
          (case html_run of
             (effects, Inl e) \<Rightarrow> (effects, Inl (ConversionError (Failed what (str_error e))))
           | (effects, Inr (html, _)) \<Rightarrow>
               (case write_pdf w html of
                  Inl Pdf_ImportError \<Rightarrow>
                    (effects, Inl (ConversionError (Not_installed ''WeasyPrint'')))
                | Inl (Pdf_raises e) \<Rightarrow>
                    (effects, Inl (ConversionError (Failed what (Library e))))
                | Inr pdf_bytes \<Rightarrow> (effects, Inr (pdf_bytes, ''application/pdf'')))))"

definition txt_to_pdf :: "world \<Rightarrow> path \<Rightarrow> (string \<times> string) run" where
  "txt_to_pdf w p = html_to_pdf w ''TXT->PDF'' (txt_to_html w p)"

definition markdown_to_pdf :: "world \<Rightarrow> path \<Rightarrow> (string \<times> string) run" where
  "markdown_to_pdf w p = html_to_pdf w ''MD->PDF'' (markdown_to_html w p)"

section \<open>AudioConverter\<close>

definition audio_formats :: "string list" where
  "audio_formats = [''mp3'', ''wav'', ''ogg'', ''flac'']"

definition audio_mime_types :: "(string \<times> string) list" where
  "audio_mime_types =
     [(''mp3'', ''audio/mpeg''), (''wav'', ''audio/wav''), (''ogg'', ''audio/ogg''),
      (''flac'', ''audio/flac'')]"

definition export_audio ::
  "world \<Rightarrow> path \<Rightarrow> string \<Rightarrow> string \<Rightarrow> audio \<Rightarrow> (string \<times> string) run" where
  "export_audio w input_path fmt bitrate a =
     (let br = (if fmt = ''mp3'' then Some bitrate else None);
          effects = [Open input_path, Export fmt br] in
      case audio_export w a fmt br of
        Inl e \<Rightarrow> (effects, Inl (ConversionError (Failed ''audio'' (Library e))))
      | Inr bytes \<Rightarrow> (effects, Inr (bytes, dict_get audio_mime_types fmt ''audio/mpeg'')))"

definition AudioConverter_convert ::
  "world \<Rightarrow> path \<Rightarrow> string \<Rightarrow> string \<Rightarrow> (string \<times> string) run" where
  "AudioConverter_convert w input_path output_format bitrate =
     (if \<not> AUDIO_SUPPORT w then ([], Inl (ConversionError (Not_installed ''pydub'')))
      else
        let fmt = lower output_format in
        if fmt \<notin> set audio_formats then ([], Inl (ConversionError (Unsupported_format fmt)))
        else
          let input_format = lower (drop 1 (suffix input_path)) in
          case audio_from_file w input_path input_format of
            Inl e \<Rightarrow> ([Open input_path], Inl (ConversionError (Failed ''audio'' (Library e))))
          | Inr a \<Rightarrow> export_audio w input_path fmt bitrate a)"



section \<open>FileConverter\<close>

text \<open>
  The keyword arguments \<open>**kwargs\<close> of \<open>FileConverter.convert\<close>: for each name a
  converter knows, the value supplied (\<open>None\<close> when the keyword is absent, or is \<open>None\<close>
  where \<open>None\<close> is the default), and the names of all other keywords supplied. The
  names \<open>cls\<close>, \<open>input_path\<close> and \<open>output_format\<close> are never among them: they are
  parameters of \<open>convert\<close> itself, and a call with such a keyword does not reach its
  body.
\<close>

record kwargs =
  kw_width :: "int option"
  kw_height :: "int option"
  kw_quality :: "int option"
  kw_keep_aspect_ratio :: "bool option"
  kw_bitrate :: "string option"
  kw_other :: "string list"

definition no_kwargs :: kwargs where
  "no_kwargs =
     \<lparr>kw_width = None, kw_height = None, kw_quality = None, kw_keep_aspect_ratio = None,
      kw_bitrate = None, kw_other = []\<rparr>"

definition or_default :: "'a option \<Rightarrow> 'a \<Rightarrow> 'a" where
  "or_default v d = (case v of None \<Rightarrow> d | Some x \<Rightarrow> x)"

text \<open>
  The body of a registered lambda \<open>lambda p, **kw: ...\<close>. An image lambda passes \<open>**kw\<close>
  on to \<open>ImageConverter.convert\<close>, whose parameters are \<open>width\<close>, \<open>height\<close>,
  \<open>quality = 85\<close> and \<open>keep_aspect_ratio = True\<close>: any other keyword is a \<open>TypeError\<close> of
  that call. Every other lambda drops \<open>**kw\<close>; the audio lambdas call
  \<open>AudioConverter.convert(p, fmt)\<close>, so \<open>bitrate\<close> is its default \<open>'192k'\<close>.
\<close>

definition lambda_body :: "world \<Rightarrow> call \<Rightarrow> path \<Rightarrow> kwargs \<Rightarrow> (string \<times> string) run" where
  "lambda_body w c p kw =
     (case c of
        ImageConvert fmt \<Rightarrow>
          if kw_bitrate kw \<noteq> None \<or> kw_other kw \<noteq> [] then ([], Inl TypeError)
          else ImageConverter_convert w p fmt (kw_width kw) (kw_height kw)
                 (or_default (kw_quality kw) 85) (or_default (kw_keep_aspect_ratio kw) True)
      | Csv_to_json \<Rightarrow> csv_to_json w p
      | Json_to_csv \<Rightarrow> json_to_csv w p
      | Csv_to_xml \<Rightarrow> csv_to_xml w p
      | Xml_to_csv \<Rightarrow> xml_to_csv w p
      | Json_to_xml \<Rightarrow> json_to_xml w p
      | Xml_to_json \<Rightarrow> xml_to_json w p
      | Csv_to_excel \<Rightarrow> csv_to_excel w p
      | Excel_to_csv \<Rightarrow> excel_to_csv w p
      | Markdown_to_html \<Rightarrow> markdown_to_html w p
      | Html_to_markdown \<Rightarrow> html_to_markdown w p
      | Txt_to_html \<Rightarrow> txt_to_html w p
      | Txt_to_pdf \<Rightarrow> txt_to_pdf w p
      | Markdown_to_pdf \<Rightarrow> markdown_to_pdf w p
      | AudioConvert fmt \<Rightarrow> AudioConverter_convert w p fmt ''192k'')"

text \<open>A run of the converter \<open>c\<close>: its body has begun, then the effects of the body.\<close>

definition invoked :: "call \<Rightarrow> 'a run \<Rightarrow> 'a run" where
  "invoked c r = (Invoke c # fst r, snd r)"

text \<open>
  The call \<open>converter(input_path, **kwargs)\<close>. The lambda's own parameter is named \<open>p\<close>:
  a keyword of that name gives the parameter two values, and the call raises
  \<open>TypeError\<close> before the body begins.
\<close>

definition call_converter :: "world \<Rightarrow> call \<Rightarrow> path \<Rightarrow> kwargs \<Rightarrow> (string \<times> string) run" where
  "call_converter w c p kw =
     (if ''p'' \<in> set (kw_other kw) then ([], Inl TypeError)
      else invoked c (lambda_body w c p kw))"

text \<open>\<open>FileConverter.convert(input_path, output_format, **kwargs)\<close>.\<close>

definition convert :: "world \<Rightarrow> path \<Rightarrow> string \<Rightarrow> kwargs \<Rightarrow> (string \<times> string) run" where
  "convert w input_path output_format kw =
     (let input_format = lower (drop 1 (suffix input_path));
          output_format' = lower output_format;
          key = (input_format, output_format') in
      case map_of CONVERSIONS key of
        None \<Rightarrow>
          ([], Inl (ConversionError (Not_supported (upper input_format) (upper output_format'))))
      | Some converter \<Rightarrow> call_converter w converter input_path kw)"

section \<open>The endpoint /convert\<close>

text \<open>
  \<open>convert_file\<close> of \<open>main.py\<close>. Its parameter \<open>quality\<close> is declared
  \<open>Query(85, ge=1, le=100)\<close>: the framework checks the bounds when it binds the request
  and answers with a validation error without calling the function. \<open>uuid\<close> and
  \<open>timestamp\<close> are the values of \<open>uuid.uuid4()\<close> and of the clock; \<open>w\<close> is the world in
  which the input path holds the uploaded content once it has been written. The upload is
  written before the \<open>try\<close>: an exception there is handled by nothing in the function.
  The result is written inside it, where \<open>except Exception\<close> answers 500.
\<close>

definition MAX_FILE_SIZE :: nat where
  "MAX_FILE_SIZE = 50 * 1024 * 1024"

definition UPLOAD_DIR :: path where
  "UPLOAD_DIR = [''uploads'']"

definition OUTPUT_DIR :: path where
  "OUTPUT_DIR = [''outputs'']"

definition get_file_extension :: "string \<Rightarrow> string" where
  "get_file_extension filename =
     (case rfind (CHR ''.'') filename of None \<Rightarrow> [] | Some i \<Rightarrow> lower (drop (Suc i) filename))"

definition strip_dots :: "string \<Rightarrow> string" where
  "strip_dots s =
     rev (dropWhile (\<lambda>c. c = CHR ''.'') (rev (dropWhile (\<lambda>c. c = CHR ''.'') s)))"

fun split_slash :: "string \<Rightarrow> string list" where
  "split_slash [] = [[]]"
| "split_slash (c # cs) =
     (if c = CHR ''/'' then [] # split_slash cs
      else case split_slash cs of [] \<Rightarrow> [[c]] | h # t \<Rightarrow> (c # h) # t)"

text \<open>\<open>directory / s\<close> for a relative \<open>s\<close>: empty and \<open>.\<close> components are dropped.\<close>

definition path_join :: "path \<Rightarrow> string \<Rightarrow> path" where
  "path_join directory s = directory @ filter (\<lambda>x. x \<noteq> [] \<and> x \<noteq> ''.'') (split_slash s)"

definition stem :: "path \<Rightarrow> string" where
  "stem p = (let n = name p in take (length n - length (suffix p)) n)"

definition generate_filename :: "string \<Rightarrow> string \<Rightarrow> string \<Rightarrow> string" where
  "generate_filename timestamp original new_extension =
     stem (path_join [] original) @ ''_'' @ timestamp @ ''.'' @ new_extension"

datatype detail =
    File_too_large
  | Pair_not_supported string string
  | Conversion_failed message
  | Internal_error

datatype response =
    Validation_error
  | HTTPException nat detail
  | ConversionResponse (converted_filename: string) (file_size: nat)
  | Unhandled_exception string

text \<open>The part of \<open>convert_file\<close> inside \<open>try ... finally\<close>, after the upload is written.\<close>

definition convert_uploaded ::
  "world \<Rightarrow> string \<Rightarrow> string \<Rightarrow> path \<Rightarrow> string \<Rightarrow> kwargs \<Rightarrow> event list \<times> response" where
  "convert_uploaded w timestamp filename input_path output_format kw =
     (case convert w input_path output_format kw of
        (effects, Inr (result_bytes, mime_type)) \<Rightarrow>
          (let output_filename = generate_filename timestamp filename output_format;
               output_path = path_join OUTPUT_DIR output_filename;
               all_effects = Write input_path # effects @ [Write output_path, Unlink input_path]
           in case fs_write w output_path of
                Some e \<Rightarrow> (all_effects, HTTPException 500 Internal_error)
              | None \<Rightarrow> (all_effects, ConversionResponse output_filename (length result_bytes)))
      | (effects, Inl (ConversionError m)) \<Rightarrow>
          (Write input_path # effects @ [Unlink input_path],
           HTTPException 400 (Conversion_failed m))
      | (effects, Inl TypeError) \<Rightarrow>
          (Write input_path # effects @ [Unlink input_path],
           HTTPException 500 Internal_error))"

definition convert_file ::
  "world \<Rightarrow> string \<Rightarrow> string \<Rightarrow> string \<Rightarrow> string \<Rightarrow> string \<Rightarrow> int option \<Rightarrow> int option \<Rightarrow> int
   \<Rightarrow> event list \<times> response" where
  "convert_file w uuid timestamp filename content output_format width height quality =
     (if quality < 1 \<or> 100 < quality then ([], Validation_error)
      else if MAX_FILE_SIZE < length content then ([], HTTPException 400 File_too_large)
      else
        let input_ext = get_file_extension filename;
            output_format' = strip_dots (lower output_format) in
        if \<not> can_convert input_ext output_format' then
          ([], HTTPException 400 (Pair_not_supported (upper input_ext) (upper output_format')))
        else
          let input_path = path_join UPLOAD_DIR (uuid @ ''_'' @ filename) in
          case fs_write w input_path of
            Some e \<Rightarrow> ([Write input_path], Unhandled_exception e)
          | None \<Rightarrow>
              convert_uploaded w timestamp filename input_path output_format'
                (no_kwargs\<lparr>kw_width := width, kw_height := height, kw_quality := Some quality\<rparr>))"

section \<open>A world to run the model in\<close>

text \<open>
  One world for the concrete runs below: \<open>photo.png\<close> decodes to a 200 x 400 \<open>RGB\<close> image
  and \<open>song.wav\<close> to one second of audio, every encoder succeeds, and the package of
  the HTML-to-PDF renderer is not installed.
\<close>

definition example_world :: world where
  "example_world =
     \<lparr>AUDIO_SUPPORT = True,
      weasyprint_import = ImportError,
      pil_open = (\<lambda>p. if name p = ''photo.png''
                        then Inr \<lparr>img_mode = ''RGB'', img_size = (200, 400), img_pixels = [],
                                  img_palette = []\<rparr>
                        else Inl ''cannot identify image file''),
      pil_resize = (\<lambda>img sz. Inr (img\<lparr>img_size := sz\<rparr>)),
      pil_save = (\<lambda>img fmt k. Inr ''image bytes''),
      read_csv = (\<lambda>p. Inl ''No such file or directory''),
      df_to_json = (\<lambda>df. Inr ''[]''),
      DataFrame = (\<lambda>j. Inl ''DataFrame constructor not properly called!''),
      df_to_csv = (\<lambda>df. Inr ''a,b''),
      json_load = (\<lambda>p. Inl ''No such file or directory''),
      json_dumps = (\<lambda>j. Inr ''{}''),
      float_repr = (\<lambda>x. ''0.0''),
      xml_pretty = (\<lambda>e. Inr ''<data/>''),
      et_parse = (\<lambda>p. Inl ''No such file or directory''),
      write_pdf = (\<lambda>html. Inr ''pdf bytes''),
      audio_from_file = (\<lambda>p f. if name p = ''song.wav''
                                 then Inr \<lparr>audio_len = 1000, audio_channels = 2,
                                           audio_frame_rate = 44100\<rparr>
                                 else Inl ''No such file or directory''),
      audio_export = (\<lambda>a f b. Inr ''audio bytes''),
      stat_size = (\<lambda>p. Inr 176444),
      fs_write = (\<lambda>p. None),
      library_body = (\<lambda>c p. Inr ''text'')\<rparr>"


section \<open>Reading scalar values back\<close>




section \<open>Truncated products\<close>

text \<open>
  For the statement of the resize: \<open>truncated n x\<close> says that the integer \<open>n\<close> is the
  non-negative rational \<open>x\<close> truncated as a float computation of \<open>x\<close> finds it, that
  is the integer part of \<open>x\<close>, or one less when \<open>x\<close> is itself an integer (the float
  product can fall just below an integer it should be equal to).
\<close>

definition truncated :: "int \<Rightarrow> rat \<Rightarrow> bool" where
  "truncated n x = (n = \<lfloor>x\<rfloor> \<or> (of_int \<lfloor>x\<rfloor> = x \<and> n = \<lfloor>x\<rfloor> - 1))"

section \<open>Effects without the quality\<close>

text \<open>For comparing two runs that differ in the quality only: the effect with the quality
  of an encoder call left out.\<close>

fun without_quality :: "event \<Rightarrow> event" where
  "without_quality (Save f k opt) = Save f None opt"
| "without_quality e = e"

section \<open>The registry\<close>

lemma registered_iff: "registered key \<longleftrightarrow> key \<in> set get_supported_conversions"
  by (simp add: registered_def get_supported_conversions_def map_of_eq_None_iff)

lemma upper_char_ascii: "\<not> digit7 c \<Longrightarrow> \<not> digit7 (upper_char c)"
  by (auto simp: upper_char_def upper_letters_def lower_letters_def split: option.splits if_splits)

lemma lower_char_upper_char: "lower_char (upper_char c) = lower_char c"
  by (simp add: lower_char_def upper_char_def upper_letters_def lower_letters_def)

lemma lower_upper_ascii:
  assumes "is_ascii s"
  shows "lower (upper s) = lower s"
proof -
  from assms have "is_ascii (map upper_char s)"
    by (simp add: is_ascii_def list_all_iff upper_char_ascii)
  with assms show ?thesis
    by (simp add: lower_def upper_def lower_char_upper_char)
qed

lemma keys_lower_case:
  "list_all (\<lambda>k. lower (fst k) = fst k \<and> lower (snd k) = snd k) get_supported_conversions"
  by (simp add: get_supported_conversions_def CONVERSIONS_def lower_def lower_char_def
      is_ascii_def upper_letters_def lower_letters_def)

text \<open>
  C2. \<open>can_convert src tgt\<close> is true exactly when the lower-cased pair is a key of the
  registry: it is true on every registered key, and it cannot tell two spellings with
  the same lower-cased forms. On ASCII strings the upper-cased pair gets the answer of
  the pair.
\<close>

theorem can_convert_iff_registered_key:
  "(can_convert src tgt \<longleftrightarrow> (lower src, lower tgt) \<in> set get_supported_conversions)
   \<and> ((s, t) \<in> set get_supported_conversions \<longrightarrow> can_convert s t)
   \<and> (lower src = lower src' \<and> lower tgt = lower tgt'
        \<longrightarrow> can_convert src tgt = can_convert src' tgt')
   \<and> (is_ascii src \<and> is_ascii tgt
        \<longrightarrow> can_convert (upper src) (upper tgt) = can_convert src tgt)"
proof -
  have a: "can_convert src tgt \<longleftrightarrow> (lower src, lower tgt) \<in> set get_supported_conversions"
    by (simp add: can_convert_def registered_iff)
  have b: "(s, t) \<in> set get_supported_conversions \<longrightarrow> can_convert s t"
  proof
    assume k: "(s, t) \<in> set get_supported_conversions"
    with keys_lower_case have "lower s = s \<and> lower t = t"
      by (auto simp: list_all_iff)
    with k show "can_convert s t"
      by (simp add: can_convert_def registered_iff)
  qed
  have c: "lower src = lower src' \<and> lower tgt = lower tgt'
        \<longrightarrow> can_convert src tgt = can_convert src' tgt'"
    by (simp add: can_convert_def)
  have d: "is_ascii src \<and> is_ascii tgt
        \<longrightarrow> can_convert (upper src) (upper tgt) = can_convert src tgt"
    by (simp add: can_convert_def lower_upper_ascii)
  from a b c d show ?thesis by blast
qed

theorem can_convert_iff_registered_key_witness:
  "can_convert ''PNG'' ''Jpg''
   \<and> (lower ''PNG'', lower ''Jpg'') \<in> set get_supported_conversions
   \<and> (''csv'', ''json'') \<in> set get_supported_conversions \<and> can_convert ''csv'' ''json''
   \<and> lower ''PNG'' = lower ''png'' \<and> lower ''Jpg'' = lower ''jpg''
   \<and> can_convert ''PNG'' ''Jpg'' = can_convert ''png'' ''jpg''
   \<and> is_ascii ''png'' \<and> is_ascii ''jpg''
   \<and> can_convert (upper ''png'') (upper ''jpg'') = can_convert ''png'' ''jpg''
   \<and> \<not> can_convert ''png'' ''mp3''
   \<and> (lower ''png'', lower ''mp3'') \<notin> set get_supported_conversions"
  using can_convert_iff_registered_key
      [of "''PNG''" "''Jpg''" "''csv''" "''json''" "''png''" "''jpg''"]
    can_convert_iff_registered_key
      [of "''png''" "''mp3''" "''csv''" "''json''" "''png''" "''mp3''"]
    can_convert_iff_registered_key
      [of "''png''" "''jpg''" "''csv''" "''json''" "''png''" "''jpg''"]
  by (auto simp add: get_supported_conversions_def CONVERSIONS_def lower_def lower_char_def
      is_ascii_def upper_letters_def lower_letters_def)

text \<open>
  C10. The two spellings \<open>jpg\<close> and \<open>jpeg\<close> are not registered for the same conversions:
  \<open>webp -> jpg\<close>, \<open>png -> jpeg\<close> and \<open>jpg -> ico\<close> are supported, \<open>webp -> jpeg\<close>,
  \<open>jpeg -> ico\<close> and \<open>gif -> jpg\<close> are not.
\<close>

theorem jpg_jpeg_alias_asymmetric:
  "can_convert ''webp'' ''jpg'' \<and> can_convert ''png'' ''jpeg'' \<and> can_convert ''jpg'' ''ico''
   \<and> \<not> can_convert ''webp'' ''jpeg'' \<and> \<not> can_convert ''jpeg'' ''ico''
   \<and> \<not> can_convert ''gif'' ''jpg''"
  by (simp add: can_convert_def registered_def CONVERSIONS_def lower_def lower_char_def
      is_ascii_def upper_letters_def lower_letters_def)

section \<open>Unsupported pairs\<close>

text \<open>
  C1. When the pair of the lower-cased extension of the source path and the lower-cased
  target is not a key of the registry, \<open>FileConverter.convert\<close> raises the
  \<open>ConversionError\<close> whose message names the two formats, upper-cased, and the run has
  no effect at all: no converter is invoked and no file is opened, whatever the world and
  the keyword arguments are.
\<close>

theorem convert_unregistered_pair:
  assumes "\<not> registered (lower (drop 1 (suffix input_path)), lower output_format)"
  shows "convert w input_path output_format kw =
           ([], Inl (ConversionError
                  (Not_supported (upper (lower (drop 1 (suffix input_path))))
                     (upper (lower output_format)))))"
  using assms by (simp add: convert_def registered_def Let_def)

theorem convert_unregistered_pair_witness:
  "\<not> registered (lower (drop 1 (suffix [''uploads'', ''a.unsupportedext''])), lower ''PNG'')
   \<and> convert example_world [''uploads'', ''a.unsupportedext''] ''PNG'' no_kwargs =
       ([], Inl (ConversionError (Not_supported ''UNSUPPORTEDEXT'' ''PNG'')))"
proof -
  have h: "\<not> registered (lower (drop 1 (suffix [''uploads'', ''a.unsupportedext''])), lower ''PNG'')"
    by code_simp
  have u: "upper (lower (drop 1 (suffix [''uploads'', ''a.unsupportedext'']))) = ''UNSUPPORTEDEXT''"
    by code_simp
  have v: "upper (lower ''PNG'') = ''PNG''"
    by code_simp
  from convert_unregistered_pair [OF h, of example_world no_kwargs] h u v show ?thesis
    by simp
qed

section \<open>Missing capabilities\<close>




section \<open>Keyword arguments\<close>








section \<open>The quality parameter\<close>

lemma save_image_effects:
  "fst (save_image w p f quality img) =
     [Open p, Save (upper f) (if f \<in> set [''jpeg'', ''webp''] then Some quality else None)
                (if f = ''png'' then Some True else None)]"
  by (cases "pil_save w img (upper f)
        \<lparr>sk_quality = (if f \<in> set [''jpeg'', ''webp''] then Some quality else None),
         sk_optimize = (if f = ''png'' then Some True else None)\<rparr>")
     (simp_all add: save_image_def Let_def split del: if_split)

lemma save_image_no_quality:
  assumes "f \<notin> set [''jpeg'', ''webp'']"
  shows "save_image w p f q img = save_image w p f q' img"
  using assms by (simp add: save_image_def Let_def)

lemma save_image_outcome:
  assumes "\<forall>img f q1 q2 opt.
      pil_save w img f \<lparr>sk_quality = q1, sk_optimize = opt\<rparr>
        = pil_save w img f \<lparr>sk_quality = q2, sk_optimize = opt\<rparr>"
  shows "snd (save_image w p f q img) = snd (save_image w p f q' img)"
proof -
  define opt where "opt = (if f = ''png'' then Some True else None)"
  define k where "k q = (if f \<in> set [''jpeg'', ''webp''] then Some q else None)" for q :: int
  have eq: "save_image w p f q img =
      (case pil_save w img (upper f) \<lparr>sk_quality = k q, sk_optimize = opt\<rparr> of
        Inl e \<Rightarrow> ([Open p, Save (upper f) (k q) opt],
                  Inl (ConversionError (Failed ''image'' (Library e))))
      | Inr bytes \<Rightarrow>
          ([Open p, Save (upper f) (k q) opt],
           Inr (bytes, dict_get image_mime_types f ''application/octet-stream'')))" for q
    unfolding save_image_def Let_def k_def opt_def ..
  have same: "pil_save w img (upper f) \<lparr>sk_quality = k q, sk_optimize = opt\<rparr>
      = pil_save w img (upper f) \<lparr>sk_quality = k q', sk_optimize = opt\<rparr>"
    by (rule assms [rule_format])
  show ?thesis
    unfolding eq same
    by (cases "pil_save w img (upper f) \<lparr>sk_quality = k q', sk_optimize = opt\<rparr>") simp_all
qed

lemma ImageConverter_convert_quality:
  "\<exists>prepared. \<forall>q. ImageConverter_convert w p fmt width height q keep =
     (case prepared of
        None \<Rightarrow> ([], Inl (ConversionError (Unsupported_format
                    (if lower fmt = ''jpg'' then ''jpeg'' else lower fmt))))
      | Some (Inl e) \<Rightarrow> ([Open p], Inl (ConversionError (Failed ''image'' (Library e))))
      | Some (Inr img) \<Rightarrow>
          save_image w p (if lower fmt = ''jpg'' then ''jpeg'' else lower fmt) q img)"
proof -
  define f where "f = (if lower fmt = ''jpg'' then ''jpeg'' else lower fmt)"
  have "\<exists>prepared. \<forall>q. ImageConverter_convert w p fmt width height q keep =
     (case prepared of
        None \<Rightarrow> ([], Inl (ConversionError (Unsupported_format f)))
      | Some (Inl e) \<Rightarrow> ([Open p], Inl (ConversionError (Failed ''image'' (Library e))))
      | Some (Inr img) \<Rightarrow> save_image w p f q img)"
  proof (cases "f \<in> set image_formats")
    case False
    hence "\<forall>q. ImageConverter_convert w p fmt width height q keep =
       (case None of
          None \<Rightarrow> ([], Inl (ConversionError (Unsupported_format f)))
        | Some (Inl e) \<Rightarrow> ([Open p], Inl (ConversionError (Failed ''image'' (Library e))))
        | Some (Inr img) \<Rightarrow> save_image w p f q img)"
      by (simp add: ImageConverter_convert_def Let_def f_def split del: if_split)
    thus ?thesis ..
  next
    case True
    show ?thesis
    proof (cases "pil_open w p")
      case (Inl e)
      with True have "\<forall>q. ImageConverter_convert w p fmt width height q keep =
         (case Some (Inl e) of
            None \<Rightarrow> ([], Inl (ConversionError (Unsupported_format f)))
          | Some (Inl e) \<Rightarrow> ([Open p], Inl (ConversionError (Failed ''image'' (Library e))))
          | Some (Inr img) \<Rightarrow> save_image w p f q img)"
        by (simp add: ImageConverter_convert_def Let_def f_def split del: if_split)
      thus ?thesis ..
    next
      case (Inr img0)
      define r where "r = (if truthy width \<or> truthy height
                    then ImageConverter_resize w
                      (if f = ''jpeg'' \<and> img_mode img0 \<in> set [''RGBA'', ''LA'', ''P'']
                          then flatten img0 else img0) width height keep
                    else Inr (if f = ''jpeg'' \<and> img_mode img0 \<in> set [''RGBA'', ''LA'', ''P'']
                          then flatten img0 else img0))"
      have eq: "ImageConverter_convert w p fmt width height q keep =
          (case r of Inl e \<Rightarrow> ([Open p], Inl (ConversionError (Failed ''image'' (Library e))))
           | Inr img2 \<Rightarrow> save_image w p f q img2)" for q
        using True Inr unfolding ImageConverter_convert_def Let_def f_def r_def
        by (simp split del: if_split)
      have "\<forall>q. ImageConverter_convert w p fmt width height q keep =
         (case Some r of
            None \<Rightarrow> ([], Inl (ConversionError (Unsupported_format f)))
          | Some (Inl e) \<Rightarrow> ([Open p], Inl (ConversionError (Failed ''image'' (Library e))))
          | Some (Inr img) \<Rightarrow> save_image w p f q img)"
        by (simp add: eq)
      thus ?thesis ..
    qed
  qed
  thus ?thesis unfolding f_def .
qed

text \<open>
  As C5 states it, the conversion core rejects a quality outside 1..100 before any
  decoding or encoding. In the example world \<open>FileConverter.convert\<close> with \<open>quality = 0\<close>
  opens the source, calls the JPEG encoder with quality 0 and returns its bytes, and
  \<open>ImageConverter.convert\<close> does the same with quality 1000.
\<close>

theorem quality_not_validated_counterexample:
  "convert example_world [''uploads'', ''photo.png''] ''jpg'' (no_kwargs\<lparr>kw_quality := Some 0\<rparr>) =
     ([Invoke (ImageConvert ''jpeg''), Open [''uploads'', ''photo.png''], Save ''JPEG'' (Some 0) None],
      Inr (''image bytes'', ''image/jpeg''))
   \<and> ImageConverter_convert example_world [''uploads'', ''photo.png''] ''jpeg'' None None 1000 True =
     ([Open [''uploads'', ''photo.png''], Save ''JPEG'' (Some 1000) None],
      Inr (''image bytes'', ''image/jpeg''))"
  by code_simp

text \<open>
  C5, amended. A quality outside 1..100 is refused by the endpoint \<open>/convert\<close> alone: the
  declared bounds of its parameter answer with a validation error before any file is
  written, opened or encoded. The conversion core checks no range. With only the
  keywords of an image converter, \<open>FileConverter.convert\<close> hands the quality it is given
  to \<open>ImageConverter.convert\<close> as it is. In \<open>ImageConverter.convert\<close> the quality has one
  use, as an argument of the encoder: whether the format is refused, the source is
  opened, and the image that is prepared for the encoder do not depend on it. So two
  runs that differ in the quality alone have the same effects up to the quality of the
  encoder call, which is the quality as it was given for \<open>jpeg\<close> and \<open>webp\<close> and none for
  the other formats; they are the same run for the other formats, and they have the same
  outcome whenever the encoder returns the same for any two qualities.
\<close>

theorem quality_checked_by_endpoint_only:
  "(quality < 1 \<or> 100 < quality \<longrightarrow>
      convert_file w uuid timestamp filename content output_format width height quality
        = ([], Validation_error))
   \<and> (map_of CONVERSIONS (lower (drop 1 (suffix p)), lower fmt) = Some (ImageConvert f)
        \<and> kw_bitrate kw = None \<and> kw_other kw = [] \<longrightarrow>
      convert w p fmt (kw\<lparr>kw_quality := Some q\<rparr>) =
        invoked (ImageConvert f)
          (ImageConverter_convert w p f (kw_width kw) (kw_height kw) q
             (or_default (kw_keep_aspect_ratio kw) True)))
   \<and> (\<exists>prepared. \<forall>q. ImageConverter_convert w p fmt width height q keep =
       (case prepared of
          None \<Rightarrow> ([], Inl (ConversionError (Unsupported_format
                      (if lower fmt = ''jpg'' then ''jpeg'' else lower fmt))))
        | Some (Inl e) \<Rightarrow> ([Open p], Inl (ConversionError (Failed ''image'' (Library e))))
        | Some (Inr img) \<Rightarrow>
            save_image w p (if lower fmt = ''jpg'' then ''jpeg'' else lower fmt) q img))
   \<and> map without_quality (fst (ImageConverter_convert w p fmt width height q keep))
       = map without_quality (fst (ImageConverter_convert w p fmt width height q' keep))
   \<and> (\<forall>g k opt. Save g k opt \<in> set (fst (ImageConverter_convert w p fmt width height q keep))
        \<longrightarrow> k = (if (if lower fmt = ''jpg'' then ''jpeg'' else lower fmt) \<in> set [''jpeg'', ''webp'']
                  then Some q else None))
   \<and> ((if lower fmt = ''jpg'' then ''jpeg'' else lower fmt) \<notin> set [''jpeg'', ''webp''] \<longrightarrow>
        ImageConverter_convert w p fmt width height q keep
          = ImageConverter_convert w p fmt width height q' keep)
   \<and> ((\<forall>img g q1 q2 opt.
          pil_save w img g \<lparr>sk_quality = q1, sk_optimize = opt\<rparr>
            = pil_save w img g \<lparr>sk_quality = q2, sk_optimize = opt\<rparr>) \<longrightarrow>
        snd (ImageConverter_convert w p fmt width height q keep)
          = snd (ImageConverter_convert w p fmt width height q' keep))"
proof -
  define F where "F = (if lower fmt = ''jpg'' then ''jpeg'' else lower fmt)"
  have a: "quality < 1 \<or> 100 < quality \<longrightarrow>
      convert_file w uuid timestamp filename content output_format width height quality
        = ([], Validation_error)"
    by (simp add: convert_file_def)
  have b: "map_of CONVERSIONS (lower (drop 1 (suffix p)), lower fmt) = Some (ImageConvert f)
        \<and> kw_bitrate kw = None \<and> kw_other kw = [] \<longrightarrow>
      convert w p fmt (kw\<lparr>kw_quality := Some q\<rparr>) =
        invoked (ImageConvert f)
          (ImageConverter_convert w p f (kw_width kw) (kw_height kw) q
             (or_default (kw_keep_aspect_ratio kw) True))"
    by (simp add: convert_def call_converter_def lambda_body_def or_default_def Let_def)
  have c: "\<exists>prepared. \<forall>q. ImageConverter_convert w p fmt width height q keep =
       (case prepared of
          None \<Rightarrow> ([], Inl (ConversionError (Unsupported_format F)))
        | Some (Inl e) \<Rightarrow> ([Open p], Inl (ConversionError (Failed ''image'' (Library e))))
        | Some (Inr img) \<Rightarrow> save_image w p F q img)"
    unfolding F_def by (rule ImageConverter_convert_quality)
  then obtain prepared where run: "\<And>q. ImageConverter_convert w p fmt width height q keep =
       (case prepared of
          None \<Rightarrow> ([], Inl (ConversionError (Unsupported_format F)))
        | Some (Inl e) \<Rightarrow> ([Open p], Inl (ConversionError (Failed ''image'' (Library e))))
        | Some (Inr img) \<Rightarrow> save_image w p F q img)"
    by blast
  have d: "map without_quality (fst (ImageConverter_convert w p fmt width height q keep))
       = map without_quality (fst (ImageConverter_convert w p fmt width height q' keep))"
    unfolding run
    by (simp add: save_image_effects split: option.split sum.split)
  have e: "\<forall>g k opt. Save g k opt \<in> set (fst (ImageConverter_convert w p fmt width height q keep))
        \<longrightarrow> k = (if F \<in> set [''jpeg'', ''webp''] then Some q else None)"
    unfolding run
    by (simp add: save_image_effects split: option.split sum.split)
  have f: "F \<notin> set [''jpeg'', ''webp''] \<longrightarrow>
        ImageConverter_convert w p fmt width height q keep
          = ImageConverter_convert w p fmt width height q' keep"
  proof
    assume "F \<notin> set [''jpeg'', ''webp'']"
    hence "save_image w p F q img = save_image w p F q' img" for img
      by (rule save_image_no_quality)
    thus "ImageConverter_convert w p fmt width height q keep
          = ImageConverter_convert w p fmt width height q' keep"
      unfolding run by (simp split: option.split sum.split)
  qed
  have g: "(\<forall>img g q1 q2 opt.
          pil_save w img g \<lparr>sk_quality = q1, sk_optimize = opt\<rparr>
            = pil_save w img g \<lparr>sk_quality = q2, sk_optimize = opt\<rparr>) \<longrightarrow>
        snd (ImageConverter_convert w p fmt width height q keep)
          = snd (ImageConverter_convert w p fmt width height q' keep)"
  proof
    assume "\<forall>img g q1 q2 opt.
          pil_save w img g \<lparr>sk_quality = q1, sk_optimize = opt\<rparr>
            = pil_save w img g \<lparr>sk_quality = q2, sk_optimize = opt\<rparr>"
    hence "snd (save_image w p F q img) = snd (save_image w p F q' img)" for img
      by (rule save_image_outcome)
    thus "snd (ImageConverter_convert w p fmt width height q keep)
          = snd (ImageConverter_convert w p fmt width height q' keep)"
      unfolding run by (simp split: option.split sum.split)
  qed
  from a b c d e f g show ?thesis
    unfolding F_def by (intro conjI)
qed

theorem quality_checked_by_endpoint_only_witness:
  "((0::int) < 1 \<or> (100::int) < 0)
   \<and> convert_file example_world ''u1'' ''t1'' ''photo.png'' ''content'' ''jpg'' None None 0
        = ([], Validation_error)
   \<and> map_of CONVERSIONS (lower (drop 1 (suffix [''uploads'', ''photo.png''])), lower ''JPG'')
        = Some (ImageConvert ''jpeg'')
   \<and> kw_bitrate no_kwargs = None \<and> kw_other no_kwargs = []
   \<and> convert example_world [''uploads'', ''photo.png''] ''JPG'' (no_kwargs\<lparr>kw_quality := Some 0\<rparr>)
        = invoked (ImageConvert ''jpeg'')
            (ImageConverter_convert example_world [''uploads'', ''photo.png''] ''jpeg''
               None None 0 True)
   \<and> map without_quality (fst (ImageConverter_convert example_world [''uploads'', ''photo.png'']
                                   ''JPG'' None None 0 True))
        = map without_quality (fst (ImageConverter_convert example_world
                                      [''uploads'', ''photo.png''] ''JPG'' None None 1000 True))
   \<and> Save ''JPEG'' (Some 0) None
        \<in> set (fst (ImageConverter_convert example_world [''uploads'', ''photo.png''] ''JPG''
                  None None 0 True))
   \<and> (\<forall>img g q1 q2 opt.
          pil_save example_world img g \<lparr>sk_quality = q1, sk_optimize = opt\<rparr>
            = pil_save example_world img g \<lparr>sk_quality = q2, sk_optimize = opt\<rparr>)
   \<and> snd (ImageConverter_convert example_world [''uploads'', ''photo.png''] ''JPG''
             None None 0 True)
        = snd (ImageConverter_convert example_world [''uploads'', ''photo.png''] ''JPG''
                 None None 1000 True)
   \<and> (if lower ''PNG'' = ''jpg'' then ''jpeg'' else lower ''PNG'') \<notin> set [''jpeg'', ''webp'']
   \<and> ImageConverter_convert example_world [''uploads'', ''photo.png''] ''PNG'' None None 0 True
        = ImageConverter_convert example_world [''uploads'', ''photo.png''] ''PNG''
            None None 1000 True"
proof -
  note t = quality_checked_by_endpoint_only
      [where quality = 0 and w = example_world and uuid = "''u1''" and timestamp = "''t1''"
         and filename = "''photo.png''" and content = "''content''" and output_format = "''jpg''"
         and width = None and height = None and p = "[''uploads'', ''photo.png'']"
         and fmt = "''JPG''" and f = "''jpeg''" and kw = no_kwargs and q = 0 and q' = 1000
         and keep = True]
  note u = quality_checked_by_endpoint_only
      [where quality = 0 and w = example_world and uuid = "''u1''" and timestamp = "''t1''"
         and filename = "''photo.png''" and content = "''content''" and output_format = "''jpg''"
         and width = None and height = None and p = "[''uploads'', ''photo.png'']"
         and fmt = "''PNG''" and f = "''png''" and kw = no_kwargs and q = 0 and q' = 1000
         and keep = True]
  note t2 = t [THEN conjunct2]
  note t3 = t2 [THEN conjunct2]
  note t4 = t3 [THEN conjunct2]
  note t5 = t4 [THEN conjunct2]
  note t6 = t5 [THEN conjunct2]
  note u6 = u [THEN conjunct2, THEN conjunct2, THEN conjunct2, THEN conjunct2, THEN conjunct2]
  have h1: "(0::int) < 1 \<or> (100::int) < 0"
    by simp
  have c1: "convert_file example_world ''u1'' ''t1'' ''photo.png'' ''content'' ''jpg'' None None 0
        = ([], Validation_error)"
    by (rule t [THEN conjunct1, THEN mp, OF h1])
  have k: "map_of CONVERSIONS (lower (drop 1 (suffix [''uploads'', ''photo.png''])), lower ''JPG'')
        = Some (ImageConvert ''jpeg'')"
    by code_simp
  have n1: "kw_bitrate no_kwargs = None"
    by (simp add: no_kwargs_def)
  have n2: "kw_other no_kwargs = []"
    by (simp add: no_kwargs_def)
  have "convert example_world [''uploads'', ''photo.png''] ''JPG'' (no_kwargs\<lparr>kw_quality := Some 0\<rparr>)
        = invoked (ImageConvert ''jpeg'')
            (ImageConverter_convert example_world [''uploads'', ''photo.png''] ''jpeg''
               (kw_width no_kwargs) (kw_height no_kwargs) 0
               (or_default (kw_keep_aspect_ratio no_kwargs) True))"
    using k n1 n2 by (intro t2 [THEN conjunct1, THEN mp] conjI)
  hence c2: "convert example_world [''uploads'', ''photo.png''] ''JPG''
          (no_kwargs\<lparr>kw_quality := Some 0\<rparr>)
        = invoked (ImageConvert ''jpeg'')
            (ImageConverter_convert example_world [''uploads'', ''photo.png''] ''jpeg''
               None None 0 True)"
    by (simp add: no_kwargs_def or_default_def)
  note c4 = t4 [THEN conjunct1]
  have s: "Save ''JPEG'' (Some 0) None
        \<in> set (fst (ImageConverter_convert example_world [''uploads'', ''photo.png''] ''JPG''
                  None None 0 True))"
    by code_simp
  have h7: "\<forall>img g q1 q2 opt.
          pil_save example_world img g \<lparr>sk_quality = q1, sk_optimize = opt\<rparr>
            = pil_save example_world img g \<lparr>sk_quality = q2, sk_optimize = opt\<rparr>"
    by (simp add: example_world_def)
  note c7 = t6 [THEN conjunct2, THEN mp, OF h7]
  have h6: "(if lower ''PNG'' = ''jpg'' then ''jpeg'' else lower ''PNG'') \<notin> set [''jpeg'', ''webp'']"
    by code_simp
  note c6 = u6 [THEN conjunct1, THEN mp, OF h6]
  show ?thesis
    by (intro conjI h1 c1 k n1 n2 c2 c4 s h7 c7 h6 c6)
qed

section \<open>Flattening for JPEG\<close>

lemma flatten_LA:
  "img_mode img = ''LA'' \<Longrightarrow>
     flatten img = \<lparr>img_mode = ''RGB'', img_size = img_size img,
                    img_pixels = map (stored_rgb ''LA'') (img_pixels img), img_palette = []\<rparr>"
  by (simp add: flatten_def paste_def Image_new_def Let_def)

text \<open>
  C4. The flattening block pastes an \<open>LA\<close> image without a mask: a fully transparent black
  pixel of an \<open>LA\<close> image becomes black, where the same pixel of an \<open>RGBA\<close> image becomes
  the white of the background.
\<close>

theorem flatten_LA_drops_alpha:
  "flatten \<lparr>img_mode = ''LA'', img_size = (1, 1), img_pixels = [[0, 0]], img_palette = []\<rparr>
     = \<lparr>img_mode = ''RGB'', img_size = (1, 1), img_pixels = [[0, 0, 0]], img_palette = []\<rparr>
   \<and> flatten \<lparr>img_mode = ''RGBA'', img_size = (1, 1), img_pixels = [[0, 0, 0, 0]],
               img_palette = []\<rparr>
     = \<lparr>img_mode = ''RGB'', img_size = (1, 1), img_pixels = [[255, 255, 255]],
        img_palette = []\<rparr>"
  by (simp add: flatten_def paste_def Image_new_def Let_def stored_rgb_def last_band_def
      paste_pixel_def blend8_def div255_def)

section \<open>JSON to XML and back\<close>














section \<open>The resize\<close>

lemma round_half_even_error: "\<bar>of_int (round_half_even z) - z\<bar> \<le> 1 / 2"
proof -
  define f where "f = \<lfloor>z\<rfloor>"
  define d where "d = z - of_int f"
  have d0: "0 \<le> d" and d1: "d < 1"
    unfolding d_def f_def by linarith+
  have z: "z = of_int f + d"
    by (simp add: d_def)
  have r: "round_half_even z =
      (if d < 1 / 2 then f else if 1 / 2 < d then f + 1 else if even f then f else f + 1)"
    by (simp add: round_half_even_def Let_def d_def f_def)
  consider "d < 1 / 2" | "1 / 2 < d" | "d = 1 / 2"
    by linarith
  then show ?thesis
  proof cases
    case 1
    with r have "round_half_even z = f" by simp
    with d0 1 show ?thesis unfolding d_def by simp
  next
    case 2
    with r have "round_half_even z = f + 1" by simp
    with d1 2 show ?thesis unfolding d_def by simp
  next
    case 3
    with r have "round_half_even z = f \<or> round_half_even z = f + 1" by simp
    with 3 show ?thesis unfolding d_def by auto
  qed
qed

lemma bitlen_powi:
  assumes "0 < a"
  shows "(2::rat) powi (bitlen a - 1) \<le> of_int a \<and> (of_int a :: rat) < 2 powi (bitlen a)"
proof -
  from assms have pos: "0 < bitlen a"
    using bitlen_eq_zero_iff [of a] bitlen_nonneg [of a] by linarith
  from bitlen_bounds [OF assms] have "2 ^ nat (bitlen a - 1) \<le> a" "a < 2 ^ nat (bitlen a)"
    by simp_all
  then have "(of_int (2 ^ nat (bitlen a - 1)) :: rat) \<le> of_int a"
    "(of_int a :: rat) < of_int (2 ^ nat (bitlen a))"
    by (simp_all only: of_int_le_iff of_int_less_iff)
  with pos show ?thesis
    by (simp add: power_int_def)
qed

lemma binary_exponent_bounds:
  assumes "q \<noteq> 0"
  shows "2 powi (binary_exponent q) \<le> \<bar>q\<bar> \<and> \<bar>q\<bar> < 2 powi (binary_exponent q + 1)"
proof -
  obtain a b where ab: "quotient_of \<bar>q\<bar> = (a, b)"
    by (cases "quotient_of \<bar>q\<bar>")
  then have b: "0 < b" and q: "\<bar>q\<bar> = of_int a / of_int b"
    using quotient_of_denom_pos quotient_of_div by blast+
  from assms have "0 < \<bar>q\<bar>" by simp
  with q b have a: "0 < a"
    by (simp add: zero_less_divide_iff)
  define d where "d = bitlen a - bitlen b"
  from bitlen_powi [OF a] bitlen_powi [OF b]
  have A: "(2::rat) powi (bitlen a - 1) \<le> of_int a" "(of_int a :: rat) < 2 powi (bitlen a)"
    and B: "(2::rat) powi (bitlen b - 1) \<le> of_int b" "(of_int b :: rat) < 2 powi (bitlen b)"
    by simp_all
  have bpos: "(0::rat) < of_int b" using b by simp
  have up: "\<bar>q\<bar> < 2 powi (d + 1)"
  proof -
    have "of_int a < (2::rat) powi (d + 1) * 2 powi (bitlen b - 1)"
      using A(2) by (simp add: d_def power_int_add [symmetric])
    also have "\<dots> \<le> 2 powi (d + 1) * of_int b"
      using B(1) by (simp add: mult_left_mono)
    finally show ?thesis
      using bpos by (simp add: q pos_divide_less_eq)
  qed
  have low: "2 powi (d - 1) < \<bar>q\<bar>"
  proof -
    have "(2::rat) powi (d - 1) * of_int b < 2 powi (d - 1) * 2 powi (bitlen b)"
      using B(2) by (simp add: mult_strict_left_mono)
    also have "\<dots> = 2 powi (bitlen a - 1)"
      by (simp add: d_def power_int_add [symmetric])
    also have "\<dots> \<le> of_int a" by (rule A(1))
    finally show ?thesis
      using bpos by (simp add: q pos_less_divide_eq)
  qed
  have be: "binary_exponent q = (if 2 powi d \<le> \<bar>q\<bar> then d else d - 1)"
    by (simp add: binary_exponent_def ab d_def Let_def)
  show ?thesis
  proof (cases "2 powi d \<le> \<bar>q\<bar>")
    case True
    with up be show ?thesis by simp
  next
    case False
    with low be show ?thesis by simp
  qed
qed


lemma fl_error:
  assumes "0 < q"
  shows "\<bar>fl q - q\<bar> \<le> q / 2 ^ 53"
proof -
  define e where "e = binary_exponent q - 52"
  define p where "p = (2::rat) powi e"
  have ppos: "0 < p"
    by (simp add: p_def)
  from assms have q0: "q \<noteq> 0" by simp
  from binary_exponent_bounds [OF q0] assms have "(2::rat) powi (e + 52) \<le> q"
    by (simp add: e_def)
  then have big: "p * 2 ^ 52 \<le> q"
    by (simp add: p_def power_int_add)
  define m where "m = round_half_even (q / p)"
  have flq: "fl q = of_int m * p"
    using q0 by (simp add: fl_def Let_def e_def p_def m_def)
  have "\<bar>of_int m - q / p\<bar> \<le> 1 / 2"
    unfolding m_def by (rule round_half_even_error)
  then have "\<bar>of_int m - q / p\<bar> * p \<le> 1 / 2 * p"
    using ppos by (simp add: mult_right_mono)
  moreover have "\<bar>of_int m - q / p\<bar> * p = \<bar>of_int m * p - q\<bar>"
  proof -
    have "\<bar>of_int m - q / p\<bar> * p = \<bar>(of_int m - q / p) * p\<bar>"
      using ppos by (simp add: abs_mult)
    also have "(of_int m - q / p) * p = of_int m * p - q"
      using ppos by (simp add: algebra_simps)
    finally show ?thesis .
  qed
  ultimately have "\<bar>fl q - q\<bar> \<le> p / 2"
    by (simp add: flq)
  also have "p / 2 \<le> q / 2 ^ 53"
    using big by simp
  finally show ?thesis .
qed

lemma fl_bounds:
  assumes "0 < q"
  shows "q * (1 - 1 / 2 ^ 53) \<le> fl q" and "fl q \<le> q * (1 + 1 / 2 ^ 53)" and "0 < fl q"
proof -
  from fl_error [OF assms, unfolded abs_le_iff]
  have a: "fl q - q \<le> q / 2 ^ 53" and b: "q - fl q \<le> q / 2 ^ 53"
    by simp_all
  from b show l: "q * (1 - 1 / 2 ^ 53) \<le> fl q"
    by (simp add: algebra_simps)
  from a show "fl q \<le> q * (1 + 1 / 2 ^ 53)"
    by (simp add: algebra_simps)
  have "0 < q * (1 - 1 / 2 ^ 53)"
    using assms by simp
  with l show "0 < fl q" by linarith
qed

lemma float_product_error:
  assumes n: "0 < n" and s: "0 < s"
    and r1: "s * (1 - 1 / 2 ^ 53) \<le> r" and r2: "r \<le> s * (1 + 1 / 2 ^ 53)"
  shows "\<bar>int_times_float n r - of_int n * s\<bar> \<le> 4 * (of_int n * s) / 2 ^ 53"
proof -
  define u :: rat where "u = 1 / 2 ^ 53"
  have u: "0 < u" "u < 1" by (simp_all add: u_def)
  have cube_up: "(1 + u) * (1 + u) * (1 + u) \<le> 1 + 4 * u"
    by (simp add: u_def)
  have cube_low: "1 - 4 * u \<le> (1 - u) * (1 - u) * (1 - u)"
    by (simp add: u_def)
  define x :: rat where "x = of_int n"
  have x: "0 < x" using n by (simp add: x_def)
  define fn where "fn = fl x"
  have fn: "x * (1 - u) \<le> fn" "fn \<le> x * (1 + u)" "0 < fn"
    using fl_bounds [OF x] by (simp_all add: fn_def u_def)
  have rpos: "0 < r"
  proof -
    have "0 < s * (1 - u)" using s u by simp
    with r1 show ?thesis by (simp add: u_def)
  qed
  define P where "P = fn * r"
  have P: "0 < P" using fn(3) rpos by (simp add: P_def)
  have P_up: "P \<le> (x * (1 + u)) * (s * (1 + u))"
    unfolding P_def using fn r2 rpos x s u
    by (intro mult_mono) (simp_all add: u_def)
  have P_low: "(x * (1 - u)) * (s * (1 - u)) \<le> P"
    unfolding P_def using fn r1 rpos x s u
    by (intro mult_mono) (simp_all add: u_def)
  define Y where "Y = fl P"
  have Y: "P * (1 - u) \<le> Y" "Y \<le> P * (1 + u)"
    using fl_bounds [OF P] by (simp_all add: Y_def u_def)
  have xs: "0 < x * s" using x s by simp
  have "Y \<le> ((x * (1 + u)) * (s * (1 + u))) * (1 + u)"
    using Y(2) P_up u by (meson less_eq_rat_def mult_right_mono order_trans add_pos_pos zero_less_one)
  also have "\<dots> = (x * s) * ((1 + u) * (1 + u) * (1 + u))"
    by (simp add: algebra_simps)
  also have "\<dots> \<le> (x * s) * (1 + 4 * u)"
    using cube_up xs by (simp add: mult_left_mono)
  finally have up: "Y - x * s \<le> 4 * (x * s) * u"
    by (simp add: algebra_simps)
  have "(x * s) * (1 - 4 * u) \<le> (x * s) * ((1 - u) * (1 - u) * (1 - u))"
    using cube_low xs by (simp add: mult_left_mono)
  also have "\<dots> = ((x * (1 - u)) * (s * (1 - u))) * (1 - u)"
    by (simp add: algebra_simps)
  also have "\<dots> \<le> P * (1 - u)"
    using P_low u by (simp add: mult_right_mono)
  also have "\<dots> \<le> Y" by (rule Y(1))
  finally have low: "x * s - Y \<le> 4 * (x * s) * u"
    by (simp add: algebra_simps)
  have eq: "int_times_float n r = Y"
    by (simp add: int_times_float_def Y_def P_def fn_def x_def)
  have e1: "Y - x * s \<le> 4 * (x * s) / 2 ^ 53"
    using up by (simp add: u_def)
  have e2: "- (Y - x * s) \<le> 4 * (x * s) / 2 ^ 53"
    using low by (simp add: u_def)
  have "\<bar>Y - x * s\<bar> \<le> 4 * (x * s) / 2 ^ 53"
    by (rule abs_leI [OF e1 e2])
  from this [unfolded x_def] show ?thesis
    unfolding eq .
qed


lemma floor_near:
  assumes D: "0 < D" and N: "X * of_int D = of_int N" and X: "0 \<le> X"
    and small: "X * of_int D < 2 ^ 51" and err: "\<bar>Y - X\<bar> \<le> 4 * X / 2 ^ 53"
  shows "truncated \<lfloor>Y\<rfloor> X"
proof -
  define k where "k = \<lfloor>X\<rfloor>"
  define dl where "dl = 4 * X / 2 ^ 53"
  have Dr: "(0::rat) < of_int D" "(1::rat) \<le> of_int D"
    using D by simp_all
  have kX: "of_int k \<le> X" "X < of_int k + 1"
    unfolding k_def by linarith+
  have dD: "dl * of_int D < 1"
  proof -
    have "dl * of_int D = 4 * (X * of_int D) / 2 ^ 53"
      by (simp add: dl_def)
    also have "\<dots> < 4 * 2 ^ 51 / 2 ^ 53"
      using small by simp
    finally show ?thesis by simp
  qed
  have Y1: "Y \<le> X + dl" and Y2: "X - dl \<le> Y"
    unfolding dl_def using err [unfolded abs_le_iff] by linarith+
  have "of_int k * of_int D \<le> X * of_int D"
    using kX(1) Dr by (simp add: mult_right_mono)
  then have "(of_int (k * D) :: rat) \<le> of_int N"
    by (simp add: N)
  then have kN: "k * D \<le> N"
    by (simp only: of_int_le_iff)
  have "X * of_int D < (of_int k + 1) * of_int D"
    using kX(2) Dr by (simp add: mult_strict_right_mono)
  then have "(of_int N :: rat) < of_int ((k + 1) * D)"
    by (simp add: N)
  then have "N < (k + 1) * D"
    by (simp only: of_int_less_iff)
  then have "N + 1 \<le> (k + 1) * D"
    by simp
  then have Nk: "(of_int N :: rat) + 1 \<le> (of_int k + 1) * of_int D"
    by (metis of_int_1 of_int_add of_int_le_iff of_int_mult)
  have "Y * of_int D \<le> (X + dl) * of_int D"
    using Y1 Dr by (simp add: mult_right_mono)
  also have "\<dots> = of_int N + dl * of_int D"
    by (simp add: algebra_simps N)
  also have "\<dots> < of_int N + 1"
    using dD by simp
  also have "\<dots> \<le> (of_int k + 1) * of_int D"
    by (rule Nk)
  finally have "Y < of_int k + 1"
    using Dr by simp
  then have up: "\<lfloor>Y\<rfloor> \<le> k"
    by (metis floor_less_iff of_int_1 of_int_add zle_add1_eq_le zless_add1_eq less_le)
  have YD: "of_int N - 1 < Y * of_int D"
  proof -
    have "of_int N - 1 < of_int N - dl * of_int D"
      using dD by simp
    also have "\<dots> = (X - dl) * of_int D"
      by (simp add: algebra_simps N)
    also have "\<dots> \<le> Y * of_int D"
      using Y2 Dr by (simp add: mult_right_mono)
    finally show ?thesis .
  qed
  have "(of_int k - 1) * of_int D \<le> (of_int (k * D) :: rat) - 1"
    using Dr by (simp add: algebra_simps)
  also have "\<dots> \<le> of_int N - 1"
    using kN by (simp only: of_int_le_iff diff_right_mono)
  also have "\<dots> < Y * of_int D" by (rule YD)
  finally have "of_int k - 1 < Y"
    using Dr by simp
  then have "of_int (k - 1) \<le> Y" by simp
  then have low: "k - 1 \<le> \<lfloor>Y\<rfloor>"
    by (simp only: le_floor_iff)
  have strict: "k \<le> \<lfloor>Y\<rfloor>" if ne: "of_int k \<noteq> X"
  proof -
    from ne Dr have "of_int k * of_int D \<noteq> X * of_int D"
      by simp
    then have "(of_int (k * D) :: rat) \<noteq> of_int N"
      by (simp add: N)
    then have "k * D \<noteq> N" by auto
    with kN have "k * D + 1 \<le> N" by simp
    then have "(of_int (k * D) :: rat) + 1 \<le> of_int N"
      by (metis of_int_1 of_int_add of_int_le_iff)
    then have "of_int k * of_int D \<le> (of_int N :: rat) - 1"
      by simp
    also have "\<dots> < Y * of_int D" by (rule YD)
    finally have "of_int k < Y"
      using Dr by simp
    then have "of_int k \<le> Y" by simp
    then show ?thesis by (simp only: le_floor_iff)
  qed
  show ?thesis
  proof (cases "of_int k = X")
    case True
    with up low show ?thesis
      unfolding truncated_def k_def [symmetric] by auto
  next
    case False
    with up strict show ?thesis
      unfolding truncated_def k_def [symmetric] by auto
  qed
qed

lemma dimension_truncated:
  assumes n: "0 < n" and D: "0 < D" and s: "0 < s"
    and r1: "s * (1 - 1 / 2 ^ 53) \<le> r" and r2: "r \<le> s * (1 + 1 / 2 ^ 53)"
    and N: "of_int n * s * of_int D = of_int N"
    and small: "of_int n * s * of_int D < 2 ^ 51"
  shows "truncated (py_int (int_times_float n r)) (of_int n * s)"
    and "0 \<le> py_int (int_times_float n r)"
proof -
  define X :: rat where "X = of_int n * s"
  define Y where "Y = int_times_float n r"
  have X: "0 < X" using n s by (simp add: X_def)
  have err: "\<bar>Y - X\<bar> \<le> 4 * X / 2 ^ 53"
    unfolding X_def Y_def by (rule float_product_error [OF n s r1 r2])
  from err [unfolded abs_le_iff] have e2: "- (Y - X) \<le> 4 * X / 2 ^ 53"
    by (rule conjunct2)
  have "4 * X / 2 ^ 53 \<le> X"
    using X by simp
  with e2 have Y: "0 \<le> Y"
    by linarith
  then have p: "py_int Y = \<lfloor>Y\<rfloor>"
    by (simp add: py_int_def)
  have "truncated \<lfloor>Y\<rfloor> X"
    using floor_near [OF D _ _ _ err, of N] N small X by (simp add: X_def)
  then show "truncated (py_int (int_times_float n r)) (of_int n * s)"
    by (simp add: p [unfolded Y_def] X_def Y_def)
  from Y show "0 \<le> py_int (int_times_float n r)"
    by (simp add: p [unfolded Y_def] Y_def)
qed


lemma scaled_dimension:
  assumes n: "0 < n" "n < 2 ^ 25" and a: "0 < a" "a < 2 ^ 25" and b: "0 < b"
    and r1: "(of_int a / of_int b) * (1 - 1 / 2 ^ 53) \<le> r"
    and r2: "r \<le> (of_int a / of_int b) * (1 + 1 / 2 ^ 53)"
  shows "truncated (py_int (int_times_float n r)) (of_int n * (of_int a / of_int b))"
    and "0 \<le> py_int (int_times_float n r)"
proof -
  have s: "(0::rat) < of_int a / of_int b"
    using a b by simp
  have N: "of_int n * (of_int a / of_int b) * of_int b = (of_int (n * a) :: rat)"
    using b by simp
  have "n * a < 2 ^ 25 * 2 ^ 25"
    using n a by (intro mult_strict_mono) simp_all
  then have "n * a < 2 ^ 51" by simp
  then have "(of_int (n * a) :: rat) < of_int (2 ^ 51)"
    by (simp only: of_int_less_iff)
  then have small: "of_int n * (of_int a / of_int b) * of_int b < (2 ^ 51 :: rat)"
    by (simp only: N) simp
  show "truncated (py_int (int_times_float n r)) (of_int n * (of_int a / of_int b))"
    by (rule dimension_truncated(1) [OF n(1) b s r1 r2 N small])
  show "0 \<le> py_int (int_times_float n r)"
    by (rule dimension_truncated(2) [OF n(1) b s r1 r2 N small])
qed

lemma truncated_le:
  assumes "truncated n x" and "x \<le> of_int m"
  shows "n \<le> m"
proof -
  from assms(2) have "\<lfloor>x\<rfloor> \<le> m"
    by (auto simp add: floor_le_iff)
  with assms(1) show ?thesis
    by (auto simp: truncated_def)
qed

lemma min_fl_bounds:
  assumes "0 < a" "0 < b"
  shows "min a b * (1 - 1 / 2 ^ 53) \<le> min (fl a) (fl b)"
    and "min (fl a) (fl b) \<le> min a b * (1 + 1 / 2 ^ 53)"
proof -
  note A = fl_bounds(1,2) [OF assms(1)] and B = fl_bounds(1,2) [OF assms(2)]
  show "min a b * (1 - 1 / 2 ^ 53) \<le> min (fl a) (fl b)"
  proof (cases "a \<le> b")
    case True
    then have "a * (1 - 1 / 2 ^ 53) \<le> b * (1 - 1 / 2 ^ 53)"
      by (simp add: mult_right_mono)
    with A(1) B(1) True show ?thesis by (simp add: min_def)
  next
    case False
    then have "b * (1 - 1 / 2 ^ 53) \<le> a * (1 - 1 / 2 ^ 53)"
      by (simp add: mult_right_mono)
    with A(1) B(1) False show ?thesis by (simp add: min_def)
  qed
  show "min (fl a) (fl b) \<le> min a b * (1 + 1 / 2 ^ 53)"
  proof (cases "a \<le> b")
    case True
    with A(2) show ?thesis by (auto simp add: min_def)
  next
    case False
    with B(2) show ?thesis by (auto simp add: min_def)
  qed
qed

text \<open>
  As C3 states it, the two products are rounded to the nearest integer. A 200 x 300
  source with \<open>width = 100\<close> and \<open>height = 100\<close> has the scale 1/3 and the products
  66.67 and 100: the code returns (66, 100), rounding to nearest gives 67.
\<close>

theorem resize_rounding_counterexample:
  "resize_dimensions (200, 300) (Some 100) (Some 100) True = Inr (Some (66, 100))
   \<and> round (200 * min (100 / 200) (100 / 300) :: rat) = 67"
  by code_simp

text \<open>
  The float product can fall below an integer it should be equal to: a 49 x 49 source
  with \<open>width = 1\<close> has the exact height 49 * (1 / 49) = 1, and the code asks for height 0.
\<close>

lemma resize_one_less_example:
  "resize_dimensions (49, 49) (Some 1) None True = Inr (Some (1, 0))"
  by code_simp

text \<open>
  C3, amended. With \<open>keep_aspect_ratio\<close> and all four sizes positive and below \<open>2^25\<close>:
  when both \<open>width\<close> and \<open>height\<close> are given, \<open>_resize\<close> asks for the two products of
  the original size and \<open>min(width / original_width, height / original_height)\<close>, each
  truncated (the integer part of the exact product, or one less when the exact product
  is an integer), and neither exceeds its bound; when one dimension is given it is used
  as it is and the other is the truncated product of the original one and the ratio.
  A 200 x 400 source with \<open>width = 100\<close> and \<open>height = 100\<close> gives (50, 100).
\<close>

theorem resize_dimensions_truncates:
  assumes ow: "0 < ow" "ow < 2 ^ 25" and oh: "0 < oh" "oh < 2 ^ 25"
    and w: "0 < w" "w < 2 ^ 25" and h: "0 < h" "h < 2 ^ 25"
  shows "(\<exists>nw nh. resize_dimensions (ow, oh) (Some w) (Some h) True = Inr (Some (nw, nh))
            \<and> truncated nw (of_int ow * min (of_int w / of_int ow) (of_int h / of_int oh))
            \<and> truncated nh (of_int oh * min (of_int w / of_int ow) (of_int h / of_int oh))
            \<and> 0 \<le> nw \<and> nw \<le> w \<and> 0 \<le> nh \<and> nh \<le> h)
       \<and> (\<exists>nh. resize_dimensions (ow, oh) (Some w) None True = Inr (Some (w, nh))
            \<and> truncated nh (of_int oh * (of_int w / of_int ow)) \<and> 0 \<le> nh)
       \<and> (\<exists>nw. resize_dimensions (ow, oh) None (Some h) True = Inr (Some (nw, h))
            \<and> truncated nw (of_int ow * (of_int h / of_int oh)) \<and> 0 \<le> nw)
       \<and> resize_dimensions (200, 400) (Some 100) (Some 100) True = Inr (Some (50, 100))"
proof -
  define a :: rat where "a = of_int w / of_int ow"
  define b :: rat where "b = of_int h / of_int oh"
  have a: "0 < a" and b: "0 < b"
    using ow oh w h by (simp_all add: a_def b_def)
  define r where "r = min (fl a) (fl b)"
  have both: "resize_dimensions (ow, oh) (Some w) (Some h) True =
      Inr (Some (py_int (int_times_float ow r), py_int (int_times_float oh r)))"
    using ow oh w h
    by (simp add: resize_dimensions_def truthy_def truediv_def Let_def r_def a_def b_def)
  have r1: "min a b * (1 - 1 / 2 ^ 53) \<le> r" and r2: "r \<le> min a b * (1 + 1 / 2 ^ 53)"
    unfolding r_def by (rule min_fl_bounds [OF a b])+
  have all4: "truncated (py_int (int_times_float ow r)) (of_int ow * min a b)
      \<and> 0 \<le> py_int (int_times_float ow r)
      \<and> truncated (py_int (int_times_float oh r)) (of_int oh * min a b)
      \<and> 0 \<le> py_int (int_times_float oh r)"
  proof (cases "a \<le> b")
    case True
    then have m: "min a b = of_int w / of_int ow"
      by (simp add: min_def a_def)
    from r1 r2 have "(of_int w / of_int ow) * (1 - 1 / 2 ^ 53) \<le> r"
      "r \<le> (of_int w / of_int ow) * (1 + 1 / 2 ^ 53)"
      by (simp_all only: m)
    from scaled_dimension [OF ow w ow(1) this] scaled_dimension [OF oh w ow(1) this]
    show ?thesis
      by (simp only: m)
  next
    case False
    then have m: "min a b = of_int h / of_int oh"
      by (simp add: min_def b_def)
    from r1 r2 have "(of_int h / of_int oh) * (1 - 1 / 2 ^ 53) \<le> r"
      "r \<le> (of_int h / of_int oh) * (1 + 1 / 2 ^ 53)"
      by (simp_all only: m)
    from scaled_dimension [OF ow h oh(1) this] scaled_dimension [OF oh h oh(1) this]
    show ?thesis
      by (simp only: m)
  qed
  then have tw: "truncated (py_int (int_times_float ow r)) (of_int ow * min a b)"
    and pw: "0 \<le> py_int (int_times_float ow r)"
    and th: "truncated (py_int (int_times_float oh r)) (of_int oh * min a b)"
    and ph: "0 \<le> py_int (int_times_float oh r)"
    by blast+
  have "of_int ow * min a b \<le> of_int ow * a"
    using ow by (simp add: mult_left_mono)
  also have "\<dots> = of_int w"
    using ow by (simp add: a_def)
  finally have lw: "py_int (int_times_float ow r) \<le> w"
    by (rule truncated_le [OF tw])
  have "of_int oh * min a b \<le> of_int oh * b"
    using oh by (simp add: mult_left_mono)
  also have "\<dots> = of_int h"
    using oh by (simp add: b_def)
  finally have lh: "py_int (int_times_float oh r) \<le> h"
    by (rule truncated_le [OF th])
  have part1: "\<exists>nw nh. resize_dimensions (ow, oh) (Some w) (Some h) True = Inr (Some (nw, nh))
            \<and> truncated nw (of_int ow * min (of_int w / of_int ow) (of_int h / of_int oh))
            \<and> truncated nh (of_int oh * min (of_int w / of_int ow) (of_int h / of_int oh))
            \<and> 0 \<le> nw \<and> nw \<le> w \<and> 0 \<le> nh \<and> nh \<le> h"
    using both tw th pw ph lw lh unfolding a_def b_def by blast
  have wonly: "resize_dimensions (ow, oh) (Some w) None True =
      Inr (Some (w, py_int (int_times_float oh (fl a))))"
    using ow w by (simp add: resize_dimensions_def truthy_def truediv_def Let_def a_def)
  have part2: "\<exists>nh. resize_dimensions (ow, oh) (Some w) None True = Inr (Some (w, nh))
            \<and> truncated nh (of_int oh * (of_int w / of_int ow)) \<and> 0 \<le> nh"
    using wonly scaled_dimension [OF oh w ow(1) fl_bounds(1,2) [OF a, unfolded a_def]]
    unfolding a_def by blast
  have honly: "resize_dimensions (ow, oh) None (Some h) True =
      Inr (Some (py_int (int_times_float ow (fl b)), h))"
    using oh h by (simp add: resize_dimensions_def truthy_def truediv_def Let_def b_def)
  have part3: "\<exists>nw. resize_dimensions (ow, oh) None (Some h) True = Inr (Some (nw, h))
            \<and> truncated nw (of_int ow * (of_int h / of_int oh)) \<and> 0 \<le> nw"
    using honly scaled_dimension [OF ow h oh(1) fl_bounds(1,2) [OF b, unfolded b_def]]
    unfolding b_def by blast
  have part4: "resize_dimensions (200, 400) (Some 100) (Some 100) True = Inr (Some (50, 100))"
    by code_simp
  from part1 part2 part3 part4 show ?thesis by blast
qed

theorem resize_dimensions_truncates_witness:
  "(0::int) < 200 \<and> (200::int) < 2 ^ 25 \<and> (0::int) < 300 \<and> (300::int) < 2 ^ 25
   \<and> (0::int) < 100 \<and> (100::int) < 2 ^ 25
   \<and> resize_dimensions (200, 300) (Some 100) (Some 100) True = Inr (Some (66, 100))
   \<and> truncated 66 (200 * min (100 / 200) (100 / 300))
   \<and> truncated 100 (300 * min (100 / 200) (100 / 300))
   \<and> resize_dimensions (200, 300) (Some 100) None True = Inr (Some (100, 150))
   \<and> truncated 150 (300 * (100 / 200))
   \<and> resize_dimensions (200, 300) None (Some 100) True = Inr (Some (66, 100))
   \<and> truncated 66 (200 * (100 / 300))"
proof -
  have hyp: "(0::int) < 200" "(200::int) < 2 ^ 25" "(0::int) < 300" "(300::int) < 2 ^ 25"
    "(0::int) < 100" "(100::int) < 2 ^ 25"
    by simp_all
  have both: "resize_dimensions (200, 300) (Some 100) (Some 100) True = Inr (Some (66, 100))"
    by code_simp
  have one: "resize_dimensions (200, 300) (Some 100) None True = Inr (Some (100, 150))"
    by code_simp
  note t = resize_dimensions_truncates [OF hyp(1) hyp(2) hyp(3) hyp(4) hyp(5) hyp(6) hyp(5) hyp(6)]
  from t obtain nw nh where
    "resize_dimensions (200, 300) (Some 100) (Some 100) True = Inr (Some (nw, nh))"
    "truncated nw (of_int 200 * min (of_int 100 / of_int 200) (of_int 100 / of_int 300))"
    "truncated nh (of_int 300 * min (of_int 100 / of_int 200) (of_int 100 / of_int 300))"
    by blast
  with both have a: "truncated 66 (200 * min (100 / 200) (100 / 300))"
    and b: "truncated 100 (300 * min (100 / 200) (100 / 300))"
    by simp_all
  from t obtain nh' where
    "resize_dimensions (200, 300) (Some 100) None True = Inr (Some (100, nh'))"
    "truncated nh' (of_int 300 * (of_int 100 / of_int 200))"
    by blast
  with one have c: "truncated 150 (300 * (100 / 200))"
    by simp
  have other: "resize_dimensions (200, 300) None (Some 100) True = Inr (Some (66, 100))"
    by code_simp
  from t obtain nw' where
    "resize_dimensions (200, 300) None (Some 100) True = Inr (Some (nw', 100))"
    "truncated nw' (of_int 200 * (of_int 100 / of_int 300))"
    by blast
  with other have d: "truncated 66 (200 * (100 / 300))"
    by simp
  from hyp both one other a b c d show ?thesis
    by blast
qed

end
